theory Spec2Isabelle
  imports Main "HOL-Library.Word"
begin

section \<open>Reward-model trainers of chaiverse.dev.model.reward\_model\<close>

text \<open>
  The module wraps an external training engine.  Its own behaviour is the plumbing of
  hyperparameters into a training configuration and the reshaping of the label column
  of every dataset fold.  The embedding below follows the Python source definition by
  definition; leading underscores of Python names are dropped.
\<close>

subsection \<open>Exceptions\<close>

text \<open>
  Every exception the source can raise is a value.  \<open>ExternalError\<close> stands for a
  failure raised inside a collaborator (tokenizer loader, model registry, training
  engine) that this layer lets through unchanged.
\<close>

datatype error =
    AssertionError
  | IndexError
  | KeyError
  | ValueError
  | TypeError
  | AttributeError
  | NotImplementedError
  | ExternalError

subsection \<open>Columns and tables\<close>

text \<open>
  A column is represented by the Python list that \<^verbatim>\<open>df[name]\<close> returns: \<open>Flat\<close> is a
  list of integers (one value per example), \<open>Nested\<close> is a list of lists.  The empty
  list is both \<open>Flat []\<close> and \<open>Nested []\<close>, and every function below treats the two
  alike.  Values are 64-bit signed integers, the integer type of the dataset library.
  Floating-point columns are outside the model.
\<close>

type_synonym int64 = "64 word"

datatype column = Flat "int64 list" | Nested "column list"

text \<open>\<^verbatim>\<open>len(values)\<close>: the number of rows of a column.\<close>

fun len_col :: "column \<Rightarrow> nat" where
  "len_col (Flat xs) = length xs"
| "len_col (Nested rows) = length rows"

text \<open>
  \<^verbatim>\<open>np.array(values)\<close> builds an array when the nested list is rectangular and raises
  ValueError when it is ragged.  \<open>shape\<close> is the shape of the array, \<open>None\<close> for a
  ragged list: a list of integers has one dimension, the empty list has shape \<open>(0,)\<close>, a
  list of lists has the shape of its rows, which must all agree, under its own length.
  The array is represented by the list it was built from; \<open>ndim\<close> is the number of its
  dimensions and is only used on a list that \<open>np_array\<close> accepted.
\<close>

fun shape :: "column \<Rightarrow> nat list option" where
  "shape (Flat xs) = Some [length xs]"
| "shape (Nested rows) =
     (case map shape rows of
        [] \<Rightarrow> Some [0]
      | None # ss \<Rightarrow> None
      | Some s # ss \<Rightarrow>
          if list_all (\<lambda>s'. s' = Some s) ss then Some (length rows # s) else None)"

definition np_array :: "column \<Rightarrow> error + column" where
  "np_array values = (case shape values of None \<Rightarrow> Inl ValueError | Some s \<Rightarrow> Inr values)"

definition ndim :: "column \<Rightarrow> nat" where
  "ndim a = (case shape a of None \<Rightarrow> 0 | Some s \<Rightarrow> length s)"

text \<open>The values of an array in row-major order, as \<^verbatim>\<open>np.unique\<close> sees them.\<close>

fun leaves :: "column \<Rightarrow> int64 list" where
  "leaves (Flat xs) = xs"
| "leaves (Nested rows) = concat (map leaves rows)"

text \<open>\<^verbatim>\<open>np.unique(a)\<close>: the distinct values of \<open>a\<close>; only its length is used.\<close>

definition unique :: "column \<Rightarrow> int64 list" where
  "unique a = remdups (leaves a)"

text \<open>
  The element type of the array: an array built from integers is an integer array, an
  array with no element at all (built from \<^verbatim>\<open>[]\<close>, or from empty rows) is a
  floating-point array.
\<close>

definition integer_dtype :: "column \<Rightarrow> bool" where
  "integer_dtype a = (leaves a \<noteq> [])"

text \<open>
  A table is the ordered list of its named columns.  References to tables and to fold
  mappings are addresses into a store, so that sharing between the caller's mapping and
  the mapping returned by the trainer is visible.
\<close>

type_synonym table = "(string \<times> column) list"
type_synonym ref = nat

record heap =
  tables :: "table list"
  dicts :: "(string \<times> ref) list list"

definition new_table :: "table \<Rightarrow> heap \<Rightarrow> ref \<times> heap" where
  "new_table t h = (length (tables h), h\<lparr>tables := tables h @ [t]\<rparr>)"

text \<open>\<^verbatim>\<open>df[name]\<close>: the column, or KeyError.\<close>

definition getitem :: "table \<Rightarrow> string \<Rightarrow> error + column" where
  "getitem df name = (case map_of df name of None \<Rightarrow> Inl KeyError | Some c \<Rightarrow> Inr c)"

text \<open>
  The number of rows of a table is that of its columns, which all have the same; a
  table that has no column has no row.
\<close>

definition num_rows :: "table \<Rightarrow> nat" where
  "num_rows df = (case df of [] \<Rightarrow> 0 | kv # kvs \<Rightarrow> len_col (snd kv))"

text \<open>
  \<^verbatim>\<open>df.remove_columns(name)\<close> and \<^verbatim>\<open>df.add_column(name, values)\<close> of the dataset
  library: both leave \<open>df\<close> alone and build a table of their own.  Removing a column
  that is not there, adding a name that is already there, and adding a column whose
  length is not the number of rows of the table are ValueErrors.
\<close>

definition remove_columns :: "table \<Rightarrow> string \<Rightarrow> error + table" where
  "remove_columns df name =
     (if name \<in> set (map fst df) then Inr (filter (\<lambda>kv. fst kv \<noteq> name) df)
      else Inl ValueError)"

definition add_column :: "table \<Rightarrow> string \<Rightarrow> column \<Rightarrow> error + table" where
  "add_column df name values =
     (if name \<in> set (map fst df) then Inl ValueError
      else if len_col values \<noteq> num_rows df then Inl ValueError
      else Inr (df @ [(name, values)]))"

text \<open>
  Modelled from the spec: \<^verbatim>\<open>chaiverse.dev.utils.format_dataset_dtype\<close> is not among the
  sources.  The spec says that the classification variant uses it to cast the labels
  column to a 64-bit integer type.  On the integer columns of this model the cast keeps
  every value; the result is a table of its own.  It is only called on a column that
  has one dimension.
\<close>

definition format_dataset_dtype_int64 :: "ref \<Rightarrow> string \<Rightarrow> heap \<Rightarrow> (error + ref) \<times> heap" where
  "format_dataset_dtype_int64 df field h =
     (case getitem (tables h ! df) field of
        Inl e \<Rightarrow> (Inl e, h)
      | Inr c \<Rightarrow> (case new_table (tables h ! df) h of (df1, h1) \<Rightarrow> (Inr df1, h1)))"

subsection \<open>Fold mappings\<close>

text \<open>
  A fold mapping is a Python dict: keys in insertion order, no key twice.
  \<open>setitem\<close> is \<^verbatim>\<open>d[k] = v\<close> (an existing key keeps its place), \<open>dict_get\<close> is
  \<^verbatim>\<open>d.get(k, None)\<close>, \<open>dict_getitem\<close> is \<^verbatim>\<open>d[k]\<close>.
\<close>

primrec setitem :: "(string \<times> ref) list \<Rightarrow> string \<Rightarrow> ref \<Rightarrow> (string \<times> ref) list" where
  "setitem [] k v = [(k, v)]"
| "setitem (p # ps) k v = (if fst p = k then (k, v) # ps else p # setitem ps k v)"

definition dict_get :: "(string \<times> ref) list \<Rightarrow> string \<Rightarrow> ref option" where
  "dict_get d k = map_of d k"

definition dict_getitem :: "(string \<times> ref) list \<Rightarrow> string \<Rightarrow> error + ref" where
  "dict_getitem d k = (case map_of d k of None \<Rightarrow> Inl KeyError | Some v \<Rightarrow> Inr v)"

text \<open>\<^verbatim>\<open>copy.copy(data)\<close>: a new dict with the same keys and the same table references.\<close>

definition copy_dict :: "ref \<Rightarrow> heap \<Rightarrow> ref \<times> heap" where
  "copy_dict data h = (length (dicts h), h\<lparr>dicts := dicts h @ [dicts h ! data]\<rparr>)"

definition dict_setitem :: "ref \<Rightarrow> string \<Rightarrow> ref \<Rightarrow> heap \<Rightarrow> heap" where
  "dict_setitem data k v h = h\<lparr>dicts := (dicts h)[data := setitem (dicts h ! data) k v]\<rparr>"

subsection \<open>One-hot expansion\<close>

text \<open>
  \<^verbatim>\<open>np.eye(n)[labels]\<close> followed by \<^verbatim>\<open>.astype(int).tolist()\<close>.  Row \<open>i\<close> of the identity
  matrix has a one at position \<open>i\<close>.  A negative size is a ValueError.  An array that
  is not an integer array cannot be used as an index (IndexError).  An index \<open>v < 0\<close>
  counts from the end (\<open>v + n\<close>); an index outside \<open>-n \<le> v < n\<close> is an IndexError,
  whatever the other indices are.
\<close>

definition eye_row :: "nat \<Rightarrow> nat \<Rightarrow> int64 list" where
  "eye_row n i = map (\<lambda>j. if j = i then 1 else 0) [0..<n]"

definition wrap_index :: "int \<Rightarrow> int64 \<Rightarrow> int" where
  "wrap_index n l = (if sint l < 0 then sint l + n else sint l)"

definition in_bounds :: "int \<Rightarrow> int64 \<Rightarrow> bool" where
  "in_bounds n l = (0 \<le> wrap_index n l \<and> wrap_index n l < n)"

fun take_rows :: "int \<Rightarrow> column \<Rightarrow> column" where
  "take_rows n (Flat ls) = Nested (map (\<lambda>l. Flat (eye_row (nat n) (nat (wrap_index n l)))) ls)"
| "take_rows n (Nested rows) = Nested (map (take_rows n) rows)"

definition eye_index :: "int \<Rightarrow> column \<Rightarrow> error + column" where
  "eye_index n labels =
     (if n < 0 then Inl ValueError
      else if \<not> integer_dtype labels then Inl IndexError
      else if list_all (in_bounds n) (leaves labels) then Inr (take_rows n labels)
      else Inl IndexError)"

subsection \<open>Classification formatting\<close>

text \<open>
  \<^verbatim>\<open>RewardClassificationTrainer._format_one_hot_labels(df)\<close>, with \<^verbatim>\<open>self.num_labels\<close>
  as the first argument.
\<close>

definition format_one_hot_labels :: "int \<Rightarrow> ref \<Rightarrow> heap \<Rightarrow> (error + ref) \<times> heap" where
  "format_one_hot_labels num_labels df h =
     (case getitem (tables h ! df) ''labels'' of
        Inl e \<Rightarrow> (Inl e, h)
      | Inr values \<Rightarrow>
          (case np_array values of
             Inl e \<Rightarrow> (Inl e, h)
           | Inr labels \<Rightarrow>
               if \<not> int (length (unique labels)) \<le> num_labels then (Inl AssertionError, h)
               else
                 (case eye_index num_labels labels of
                    Inl e \<Rightarrow> (Inl e, h)
                  | Inr one_hot_labels \<Rightarrow>
                      (case remove_columns (tables h ! df) ''labels'' of
                         Inl e \<Rightarrow> (Inl e, h)
                       | Inr t1 \<Rightarrow>
                           (case new_table t1 h of
                              (df1, h1) \<Rightarrow>
                                (case add_column (tables h1 ! df1) ''labels'' one_hot_labels of
                                   Inl e \<Rightarrow> (Inl e, h1)
                                 | Inr t2 \<Rightarrow>
                                     (case new_table t2 h1 of
                                        (df2, h2) \<Rightarrow> (Inr df2, h2))))))))"

text \<open>
  The body of the loop of \<^verbatim>\<open>RewardClassificationTrainer._format_data_by_training_task\<close>
  for one item \<open>(fold_name, df)\<close> of the copied mapping \<open>data\<close>.
\<close>

definition fold_body :: "int \<Rightarrow> ref \<Rightarrow> string \<Rightarrow> ref \<Rightarrow> heap \<Rightarrow> (error + unit) \<times> heap" where
  "fold_body num_labels data fold_name df h =
     (case getitem (tables h ! df) ''labels'' of
        Inl e \<Rightarrow> (Inl e, h)
      | Inr values \<Rightarrow>
          (case np_array values of
             Inl e \<Rightarrow> (Inl e, h)
           | Inr labels \<Rightarrow>
               if ndim labels = 1 then
                 (case format_dataset_dtype_int64 df ''labels'' h of
                    (Inl e, h1) \<Rightarrow> (Inl e, h1)
                  | (Inr df1, h1) \<Rightarrow>
                      (case format_one_hot_labels num_labels df1 h1 of
                         (Inl e, h2) \<Rightarrow> (Inl e, h2)
                       | (Inr df2, h2) \<Rightarrow> (Inr (), dict_setitem data fold_name df2 h2)))
               else (Inr (), h)))"

text \<open>
  \<^verbatim>\<open>for fold, df in data.items()\<close>: the view is live, so item \<open>i\<close> is read from the
  mapping as it is when the loop gets there.  Assigning to a key that is already there
  keeps the number of items, so the loop makes as many rounds as the mapping has items;
  \<open>k\<close> counts the rounds that are left.
\<close>

fun items_loop :: "int \<Rightarrow> ref \<Rightarrow> nat \<Rightarrow> nat \<Rightarrow> heap \<Rightarrow> (error + unit) \<times> heap" where
  "items_loop num_labels data i 0 h = (Inr (), h)"
| "items_loop num_labels data i (Suc k) h =
     (case dicts h ! data ! i of
        (fold_name, df) \<Rightarrow>
          (case fold_body num_labels data fold_name df h of
             (Inl e, h1) \<Rightarrow> (Inl e, h1)
           | (Inr u, h1) \<Rightarrow> items_loop num_labels data (Suc i) k h1))"

text \<open>\<^verbatim>\<open>RewardClassificationTrainer._format_data_by_training_task(data)\<close>.\<close>

definition Classification_format_data_by_training_task ::
    "int \<Rightarrow> ref \<Rightarrow> heap \<Rightarrow> (error + ref) \<times> heap" where
  "Classification_format_data_by_training_task num_labels data h =
     (case copy_dict data h of
        (data1, h1) \<Rightarrow>
          (case items_loop num_labels data1 0 (length (dicts h1 ! data1)) h1 of
             (Inl e, h2) \<Rightarrow> (Inl e, h2)
           | (Inr u, h2) \<Rightarrow> (Inr data1, h2)))"

subsection \<open>Conditions on the store used in the statements\<close>

text \<open>
  A mapping of the store is well formed when it is allocated, no key occurs twice (it is
  a dict) and every value is an allocated table.
\<close>

definition wf_mapping :: "heap \<Rightarrow> ref \<Rightarrow> bool" where
  "wf_mapping h data =
     (data < length (dicts h) \<and> distinct (map fst (dicts h ! data)) \<and>
      list_all (\<lambda>kv. snd kv < length (tables h)) (dicts h ! data))"

text \<open>
  \<open>fold_ok n t\<close>: the loop body raises nothing on table \<open>t\<close> for \<open>num_labels = n\<close>.  The
  labels column is there and is rectangular; when it has one dimension it is not empty,
  it has at most \<open>n\<close> distinct values, all of them valid row indices of the identity
  matrix, and the table without the labels column has one row per label.
\<close>

definition fold_ok :: "int \<Rightarrow> table \<Rightarrow> bool" where
  "fold_ok n t =
     (case getitem t ''labels'' of
        Inl e \<Rightarrow> False
      | Inr c \<Rightarrow>
          shape c \<noteq> None \<and>
          (ndim c = 1 \<longrightarrow>
             integer_dtype c \<and> int (length (unique c)) \<le> n \<and>
             list_all (in_bounds n) (leaves c) \<and>
             num_rows (filter (\<lambda>kv. fst kv \<noteq> ''labels'') t) = len_col c))"

text \<open>The table that replaces a table \<open>t\<close> with flat labels \<open>ls\<close>.\<close>

definition one_hot_table :: "int \<Rightarrow> table \<Rightarrow> int64 list \<Rightarrow> table" where
  "one_hot_table n t ls =
     filter (\<lambda>kv. fst kv \<noteq> ''labels'') t @ [(''labels'', take_rows n (Flat ls))]"

text \<open>
  How an item \<open>new\<close> of the returned mapping relates to the item \<open>old\<close> of the caller's
  mapping, between the store \<open>h\<close> before and the store \<open>h'\<close> after the call: the same
  fold name; for labels of one dimension a table allocated by the call that holds the
  one-hot table, for multi-dimensional labels the caller's table reference.
\<close>

definition formatted_entry :: "int \<Rightarrow> heap \<Rightarrow> heap \<Rightarrow> string \<times> ref \<Rightarrow> string \<times> ref \<Rightarrow> bool" where
  "formatted_entry n h h' old new =
     (fst new = fst old \<and>
      (case getitem (tables h ! snd old) ''labels'' of
         Inl e \<Rightarrow> False
       | Inr c \<Rightarrow>
           if ndim c = 1 then
             length (tables h) \<le> snd new \<and> snd new < length (tables h') \<and>
             tables h' ! snd new = one_hot_table n (tables h ! snd old) (leaves c)
           else snd new = snd old))"

text \<open>
  What \<^const>\<open>items_loop\<close> guarantees from item \<open>i\<close> on, with \<open>k\<close> items left: tables are
  only added, no mapping but \<open>d\<close> changes, \<open>d\<close> keeps its keys and its first \<open>i\<close> items;
  a normal end means every remaining fold passed the checks and was formatted, an
  exception means some fold \<open>j\<close> did not pass while all before it did.
\<close>

definition loop_post ::
    "int \<Rightarrow> ref \<Rightarrow> nat \<Rightarrow> nat \<Rightarrow> heap \<Rightarrow> error + unit \<Rightarrow> heap \<Rightarrow> bool" where
  "loop_post n d i k h r h' =
     ((\<exists>new. tables h' = tables h @ new) \<and>
      length (dicts h') = length (dicts h) \<and>
      (\<forall>d0. d0 \<noteq> d \<longrightarrow> dicts h' ! d0 = dicts h ! d0) \<and>
      map fst (dicts h' ! d) = map fst (dicts h ! d) \<and>
      (\<forall>j<i. dicts h' ! d ! j = dicts h ! d ! j) \<and>
      (case r of
         Inr u \<Rightarrow>
           (\<forall>j. i \<le> j \<and> j < i + k \<longrightarrow>
              fold_ok n (tables h ! snd (dicts h ! d ! j)) \<and>
              formatted_entry n h h' (dicts h ! d ! j) (dicts h' ! d ! j))
       | Inl e \<Rightarrow>
           (\<exists>j. i \<le> j \<and> j < i + k \<and>
              (\<forall>j'. i \<le> j' \<and> j' < j \<longrightarrow> fold_ok n (tables h ! snd (dicts h ! d ! j'))) \<and>
              \<not> fold_ok n (tables h ! snd (dicts h ! d ! j)) \<and>
              (\<forall>ls. getitem (tables h ! snd (dicts h ! d ! j)) ''labels'' = Inr (Flat ls) \<longrightarrow>
                    \<not> int (length (remdups ls)) \<le> n \<longrightarrow> e = AssertionError))))"

text \<open>\<^verbatim>\<open>np.argmax\<close> of a row: the first position that holds the greatest value.\<close>

definition argmax :: "int64 list \<Rightarrow> nat" where
  "argmax row = length (takeWhile (\<lambda>x. sint x \<noteq> Max (set (map sint row))) row)"

subsection \<open>The trainer object\<close>

text \<open>
  Tokenizer loaders, tokenizers and models are objects of the external libraries; the
  trainer only holds and passes them, so they are opaque handles.  \<open>'f\<close> is the type of
  floating-point values, which are only stored and copied.
\<close>

type_synonym handle = nat

datatype trainer_class = BaseRewardTrainer | RewardRegressionTrainer | RewardClassificationTrainer

text \<open>The class attribute \<^verbatim>\<open>_training_task\<close>.\<close>

fun training_task :: "trainer_class \<Rightarrow> string option" where
  "training_task BaseRewardTrainer = None"
| "training_task RewardRegressionTrainer = Some ''regression''"
| "training_task RewardClassificationTrainer = Some ''single_label_classification''"

text \<open>
  The base class has metaclass \<^verbatim>\<open>ABCMeta\<close> and declares the formatting hook with
  \<^verbatim>\<open>@abstractmethod\<close>; both subclasses override the hook.  \<open>abstract_methods\<close> is the
  \<^verbatim>\<open>__abstractmethods__\<close> of each class.
\<close>

fun abstract_methods :: "trainer_class \<Rightarrow> string list" where
  "abstract_methods BaseRewardTrainer = [''_format_data_by_training_task'']"
| "abstract_methods RewardRegressionTrainer = []"
| "abstract_methods RewardClassificationTrainer = []"

text \<open>The arguments of \<^verbatim>\<open>__init__\<close>, which stores each of them under its own name.\<close>

record 'f hyperparameters =
  model_name :: string
  tokenize_loader :: handle
  output_dir :: string
  num_labels :: int
  learning_rate :: 'f
  num_train_epochs :: int
  optim :: string
  bf16 :: bool
  logging_strategy :: string
  logging_steps :: int
  eval_strategy :: string
  eval_steps :: "int option"
  save_strategy :: string
  save_steps :: "int option"
  per_device_batch_size :: int
  gradient_accumulation_steps :: int
  train_seed :: int
  device_map :: string

text \<open>
  The keyword arguments given to \<^verbatim>\<open>TrainingArguments\<close>.  The configuration and the
  engine are objects of the training library; they are represented by the arguments
  they are built from, and what the library derives from them is not part of this layer.
\<close>

record 'f training_arguments =
  arg_output_dir :: string
  arg_learning_rate :: 'f
  arg_num_train_epochs :: int
  arg_logging_dir :: string
  arg_logging_strategy :: string
  arg_logging_steps :: int
  arg_evaluation_strategy :: string
  arg_eval_steps :: "int option"
  arg_save_strategy :: string
  arg_save_steps :: "int option"
  arg_bf16 :: bool
  arg_optim :: string
  arg_logging_first_step :: bool
  arg_seed :: int
  arg_per_device_train_batch_size :: int
  arg_per_device_eval_batch_size :: int
  arg_gradient_accumulation_steps :: int

text \<open>The keyword arguments given to the training engine \<^verbatim>\<open>_trainer_cls\<close>.\<close>

record 'f engine =
  engine_model :: handle
  engine_args :: "'f training_arguments"
  engine_tokenizer :: handle
  train_dataset :: ref
  eval_dataset :: "ref option"

text \<open>
  A trainer object: its class, the stored hyperparameters, and the attributes
  \<^verbatim>\<open>tokenizer\<close>, \<^verbatim>\<open>model\<close> and \<^verbatim>\<open>trainer\<close>, which do not exist (\<open>None\<close>) until a method
  assigns them; reading one before that is an AttributeError.
\<close>

record 'f reward_trainer = "'f hyperparameters" +
  cls :: trainer_class
  tokenizer :: "handle option"
  model :: "handle option"
  trainer :: "'f engine option"

text \<open>\<^verbatim>\<open>BaseRewardTrainer.__init__\<close>, inherited by both subclasses.\<close>

definition init :: "trainer_class \<Rightarrow> 'f hyperparameters \<Rightarrow> 'f reward_trainer" where
  "init c args =
     \<lparr>model_name = model_name args,
      tokenize_loader = tokenize_loader args,
      output_dir = output_dir args,
      num_labels = num_labels args,
      learning_rate = learning_rate args,
      num_train_epochs = num_train_epochs args,
      optim = optim args,
      bf16 = bf16 args,
      logging_strategy = logging_strategy args,
      logging_steps = logging_steps args,
      eval_strategy = eval_strategy args,
      eval_steps = eval_steps args,
      save_strategy = save_strategy args,
      save_steps = save_steps args,
      per_device_batch_size = per_device_batch_size args,
      gradient_accumulation_steps = gradient_accumulation_steps args,
      train_seed = train_seed args,
      device_map = device_map args,
      cls = c, tokenizer = None, model = None, trainer = None\<rparr>"

text \<open>
  Calling a class: a class with abstract methods left cannot be instantiated
  (TypeError), otherwise the object is built and \<^verbatim>\<open>__init__\<close> runs.
\<close>

definition instantiate :: "trainer_class \<Rightarrow> 'f hyperparameters \<Rightarrow> error + 'f reward_trainer" where
  "instantiate c args = (if abstract_methods c \<noteq> [] then Inl TypeError else Inr (init c args))"

text \<open>
  The body of the property \<^verbatim>\<open>training_config\<close> is a single \<^verbatim>\<open>return\<close> of the
  \<^verbatim>\<open>TrainingArguments\<close> built from attributes of \<open>self\<close>.  \<open>training_config self\<close> is
  that value.
\<close>

definition training_config :: "('f, 'a) reward_trainer_scheme \<Rightarrow> 'f training_arguments" where
  "training_config self =
     \<lparr>arg_output_dir = output_dir self,
      arg_learning_rate = learning_rate self,
      arg_num_train_epochs = num_train_epochs self,
      arg_logging_dir = output_dir self @ ''/logs'',
      arg_logging_strategy = logging_strategy self,
      arg_logging_steps = logging_steps self,
      arg_evaluation_strategy = eval_strategy self,
      arg_eval_steps = eval_steps self,
      arg_save_strategy = save_strategy self,
      arg_save_steps = save_steps self,
      arg_bf16 = bf16 self,
      arg_optim = optim self,
      arg_logging_first_step = False,
      arg_seed = train_seed self,
      arg_per_device_train_batch_size = per_device_batch_size self,
      arg_per_device_eval_batch_size = per_device_batch_size self,
      arg_gradient_accumulation_steps = gradient_accumulation_steps self\<rparr>"

text \<open>
  An access \<^verbatim>\<open>self.training_config\<close> runs the getter on the object: the result is the
  value returned and the trainer object as the getter leaves it.  The getter assigns no
  attribute.
\<close>

definition get_training_config ::
    "'f reward_trainer \<Rightarrow> 'f training_arguments \<times> 'f reward_trainer" where
  "get_training_config self = (training_config self, self)"

subsection \<open>Collaborators\<close>

text \<open>
  The external operations the trainer calls.  Each may fail.
  \<open>format_dataset_dtype_float\<close> is \<^verbatim>\<open>utils.format_dataset_dtype(data, 'labels', 'float')\<close>
  on a whole fold mapping, which the regression variant uses; its floating-point result
  is outside the model, so it is a parameter.
\<close>

record 'f env =
  loader_load :: "handle \<Rightarrow> error + handle"
  from_pretrained :: "string \<Rightarrow> int \<Rightarrow> string option \<Rightarrow> string \<Rightarrow> error + handle"
  engine_train :: "'f engine \<Rightarrow> error + unit"
  format_dataset_dtype_float :: "ref \<Rightarrow> heap \<Rightarrow> (error + ref) \<times> heap"

subsection \<open>Methods of the trainer\<close>

text \<open>\<^verbatim>\<open>BaseRewardTrainer._format_data_by_training_task\<close>: the abstract hook.\<close>

definition Base_format_data_by_training_task :: "ref \<Rightarrow> heap \<Rightarrow> (error + ref) \<times> heap" where
  "Base_format_data_by_training_task data h = (Inl NotImplementedError, h)"

text \<open>\<^verbatim>\<open>RewardRegressionTrainer._format_data_by_training_task\<close>.\<close>

definition Regression_format_data_by_training_task ::
    "'f env \<Rightarrow> ref \<Rightarrow> heap \<Rightarrow> (error + ref) \<times> heap" where
  "Regression_format_data_by_training_task env data h = format_dataset_dtype_float env data h"

text \<open>\<^verbatim>\<open>self._format_data_by_training_task(data)\<close>: the method of the class of \<open>self\<close>.\<close>

definition format_data_by_training_task ::
    "'f env \<Rightarrow> 'f reward_trainer \<Rightarrow> ref \<Rightarrow> heap \<Rightarrow> (error + ref) \<times> heap" where
  "format_data_by_training_task env self data h =
     (case cls self of
        BaseRewardTrainer \<Rightarrow> Base_format_data_by_training_task data h
      | RewardRegressionTrainer \<Rightarrow> Regression_format_data_by_training_task env data h
      | RewardClassificationTrainer \<Rightarrow>
          Classification_format_data_by_training_task (num_labels self) data h)"

definition instantiate_reward_model :: "'f env \<Rightarrow> 'f reward_trainer \<Rightarrow> error + 'f reward_trainer" where
  "instantiate_reward_model env self =
     (case from_pretrained env (model_name self) (num_labels self) (training_task (cls self))
             (device_map self) of
        Inl e \<Rightarrow> Inl e
      | Inr m \<Rightarrow> Inr (self\<lparr>model := Some m\<rparr>))"

text \<open>
  \<^verbatim>\<open>instantiate_reward_trainer(data)\<close>.  The arguments of the engine are evaluated in
  the order they are written: \<^verbatim>\<open>self.model\<close>, \<^verbatim>\<open>self.training_config\<close>,
  \<^verbatim>\<open>self.tokenizer\<close>, \<^verbatim>\<open>data['train']\<close>.
\<close>

definition instantiate_reward_trainer ::
    "'f reward_trainer \<Rightarrow> ref \<Rightarrow> heap \<Rightarrow> error + 'f reward_trainer" where
  "instantiate_reward_trainer self data h =
     (case dict_get (dicts h ! data) ''validation'' of
        eval_ds \<Rightarrow>
          (case model self of
             None \<Rightarrow> Inl AttributeError
           | Some m \<Rightarrow>
               (case get_training_config self of
                  (args, self1) \<Rightarrow>
                    (case tokenizer self1 of
                       None \<Rightarrow> Inl AttributeError
                     | Some tk \<Rightarrow>
                         (case dict_getitem (dicts h ! data) ''train'' of
                            Inl e \<Rightarrow> Inl e
                          | Inr train_ds \<Rightarrow>
                              Inr (self1\<lparr>trainer :=
                                     Some \<lparr>engine_model = m, engine_args = args,
                                           engine_tokenizer = tk, train_dataset = train_ds,
                                           eval_dataset = eval_ds\<rparr>\<rparr>))))))"

text \<open>\<^verbatim>\<open>fit(data)\<close>: the result, the trainer object and the store after the call.\<close>

definition fit ::
    "'f env \<Rightarrow> 'f reward_trainer \<Rightarrow> ref \<Rightarrow> heap \<Rightarrow> (error + unit) \<times> 'f reward_trainer \<times> heap" where
  "fit env self data h =
     (case loader_load env (tokenize_loader self) of
        Inl e \<Rightarrow> (Inl e, self, h)
      | Inr tk \<Rightarrow>
          (case self\<lparr>tokenizer := Some tk\<rparr> of
             self1 \<Rightarrow>
               (case format_data_by_training_task env self1 data h of
                  (Inl e, h1) \<Rightarrow> (Inl e, self1, h1)
                | (Inr data1, h1) \<Rightarrow>
                    (case instantiate_reward_model env self1 of
                       Inl e \<Rightarrow> (Inl e, self1, h1)
                     | Inr self2 \<Rightarrow>
                         (case instantiate_reward_trainer self2 data1 h1 of
                            Inl e \<Rightarrow> (Inl e, self2, h1)
                          | Inr self3 \<Rightarrow>
                              (case trainer self3 of
                                 None \<Rightarrow> (Inl AttributeError, self3, h1)
                               | Some eng \<Rightarrow>
                                   (case engine_train env eng of
                                      Inl e \<Rightarrow> (Inl e, self3, h1)
                                    | Inr u \<Rightarrow> (Inr (), self3, h1))))))))"

text \<open>
  Using a class directly: \<^verbatim>\<open>cls(**args).fit(data)\<close>.  When the instantiation fails
  there is no object, and \<^verbatim>\<open>fit\<close> is not reached.
\<close>

definition instantiate_and_fit ::
    "'f env \<Rightarrow> trainer_class \<Rightarrow> 'f hyperparameters \<Rightarrow> ref \<Rightarrow> heap \<Rightarrow>
       (error + unit) \<times> 'f reward_trainer option \<times> heap" where
  "instantiate_and_fit env c args data h =
     (case instantiate c args of
        Inl e \<Rightarrow> (Inl e, None, h)
      | Inr self \<Rightarrow> (case fit env self data h of (r, self1, h1) \<Rightarrow> (r, Some self1, h1)))"

subsection \<open>Saving\<close>

text \<open>
  The \<^verbatim>\<open>path\<close> argument of \<^verbatim>\<open>save\<close> is any Python value.  \<open>truthy\<close> is the truth value
  Python gives it, \<open>py_or a b\<close> is \<^verbatim>\<open>a or b\<close>.
\<close>

datatype pyval = PNone | PBool bool | PInt int | PStr string | PList "pyval list"

fun truthy :: "pyval \<Rightarrow> bool" where
  "truthy PNone = False"
| "truthy (PBool b) = b"
| "truthy (PInt i) = (i \<noteq> 0)"
| "truthy (PStr s) = (s \<noteq> [])"
| "truthy (PList xs) = (xs \<noteq> [])"

definition py_or :: "pyval \<Rightarrow> pyval \<Rightarrow> pyval" where
  "py_or a b = (if truthy a then a else b)"

text \<open>
  \<^verbatim>\<open>save(path)\<close>.  The second component is the log of the calls of
  \<^verbatim>\<open>save_pretrained\<close>: which model was written to which target.  What the model
  registry does with the target is not part of this layer.
\<close>

definition save ::
    "'f reward_trainer \<Rightarrow> pyval \<Rightarrow> (handle \<times> pyval) list \<Rightarrow> (error + unit) \<times> (handle \<times> pyval) list" where
  "save self path saved =
     (case py_or path (PStr (output_dir self)) of
        save_path \<Rightarrow>
          (case model self of
             None \<Rightarrow> (Inl AttributeError, saved)
           | Some m \<Rightarrow> (Inr (), saved @ [(m, save_path)])))"

subsection \<open>Example stores\<close>

text \<open>
  A store with the single mapping \<^verbatim>\<open>{'train': t}\<close> whose table has the given labels
  column and no other, one whose table has three examples with labels \<open>[0, 2, 1]\<close>, one
  whose table has no example, and a store with the mapping
  \<^verbatim>\<open>{'train': t0, 'validation': t1}\<close> where \<open>t0\<close> has flat labels and \<open>t1\<close> has labels
  that are one-hot already.
\<close>

definition one_fold_store :: "column \<Rightarrow> heap" where
  "one_fold_store c = \<lparr>tables = [[(''labels'', c)]], dicts = [[(''train'', 0)]]\<rparr>"

definition three_row_store :: heap where
  "three_row_store =
     \<lparr>tables =
        [[(''input_ids'', Nested [Flat [101, 7], Flat [101, 9], Flat [101, 4]]),
          (''labels'', Flat [0, 2, 1])]],
      dicts = [[(''train'', 0)]]\<rparr>"

definition empty_fold_store :: heap where
  "empty_fold_store =
     \<lparr>tables = [[(''input_ids'', Nested []), (''labels'', Flat [])]],
      dicts = [[(''train'', 0)]]\<rparr>"

definition two_fold_store :: heap where
  "two_fold_store =
     \<lparr>tables =
        [[(''input_ids'', Nested [Flat [101, 7], Flat [101, 9]]), (''labels'', Flat [0, 1])],
         [(''input_ids'', Nested [Flat [101, 5]]), (''labels'', Nested [Flat [1, 0]])]],
      dicts = [[(''train'', 0), (''validation'', 1)]]\<rparr>"

subsection \<open>Example trainer\<close>

text \<open>
  Constructor arguments with the default values of \<^verbatim>\<open>__init__\<close> (a floating-point
  value is given by its literal), collaborators that always succeed, and a
  classification trainer that holds a tokenizer and a model.
\<close>

definition example_args :: "string hyperparameters" where
  "example_args =
     \<lparr>model_name = ''gpt2'', tokenize_loader = 0, output_dir = ''out'', num_labels = 1,
      learning_rate = ''2e-5'', num_train_epochs = 1, optim = ''adamw_hf'', bf16 = False,
      logging_strategy = ''steps'', logging_steps = 50, eval_strategy = ''no'',
      eval_steps = None, save_strategy = ''no'', save_steps = None,
      per_device_batch_size = 8, gradient_accumulation_steps = 1, train_seed = 1,
      device_map = ''auto''\<rparr>"

definition example_env :: "string env" where
  "example_env =
     \<lparr>loader_load = (\<lambda>l. Inr 1),
      from_pretrained = (\<lambda>name n task dev. Inr 2),
      engine_train = (\<lambda>eng. Inr ()),
      format_dataset_dtype_float = (\<lambda>data h. (Inr data, h))\<rparr>"

definition example_trainer :: "string reward_trainer" where
  "example_trainer =
     (init RewardClassificationTrainer example_args)\<lparr>tokenizer := Some 1, model := Some 2\<rparr>"

section \<open>Properties of the store operations\<close>

lemma setitem_nth:
  "distinct (map fst al) \<Longrightarrow> i < length al \<Longrightarrow>
     setitem al (fst (al ! i)) v = al[i := (fst (al ! i), v)]"
proof (induction al arbitrary: i)
  case Nil
  then show ?case by simp
next
  case (Cons p ps)
  show ?case
  proof (cases i)
    case 0
    then show ?thesis by simp
  next
    case (Suc j)
    with Cons.prems have j: "j < length ps" and d: "distinct (map fst ps)"
      and nin: "fst p \<notin> fst ` set ps" by auto
    have "fst (ps ! j) \<in> fst ` set ps" using j by simp
    with nin have "fst p \<noteq> fst (ps ! j)" by metis
    with Cons.IH [OF d j] Suc show ?thesis by simp
  qed
qed


lemma shape_not_Nil: "shape c = Some s \<Longrightarrow> s \<noteq> []"
  by (cases c) (auto split: list.splits option.splits if_splits)

lemma ndim_one: "ndim c = 1 \<longleftrightarrow> (\<exists>ls. c = Flat ls) \<or> c = Nested []"
proof (cases c)
  case (Flat ls)
  then show ?thesis by (simp add: ndim_def)
next
  case (Nested rows)
  show ?thesis
  proof (cases rows)
    case Nil
    with Nested show ?thesis by (simp add: ndim_def)
  next
    case (Cons r rs)
    show ?thesis
    proof (cases "shape r")
      case None
      with Nested Cons show ?thesis by (simp add: ndim_def)
    next
      case (Some s)
      then have "s \<noteq> []" by (rule shape_not_Nil)
      with Nested Cons Some show ?thesis by (simp add: ndim_def)
    qed
  qed
qed

lemma ndim_one_shape: "ndim c = 1 \<Longrightarrow> shape c \<noteq> None"
  by (auto simp: ndim_def split: option.splits)

lemma np_array_cases:
  "np_array c = (if shape c = None then Inl ValueError else Inr c)"
  by (simp add: np_array_def split: option.splits)

lemma getitem_keys: "getitem t name = Inr c \<Longrightarrow> name \<in> set (map fst t)"
  by (auto simp: getitem_def split: option.splits dest!: map_of_SomeD intro: rev_image_eqI)

lemma filter_keys: "''labels'' \<notin> set (map fst (filter (\<lambda>kv. fst kv \<noteq> ''labels'') t))"
  by auto

lemma len_col_take_rows: "len_col (take_rows n c) = len_col c"
  by (cases c) simp_all

lemmas body_defs = fold_body_def format_dataset_dtype_int64_def new_table_def
  format_one_hot_labels_def unique_def eye_index_def integer_dtype_def np_array_def
  remove_columns_def add_column_def dict_setitem_def

lemma fold_body_keyerror:
  assumes "getitem (tables h ! df) ''labels'' = Inl e"
  shows "fold_body n d f df h = (Inl e, h)"
  using assms by (simp add: fold_body_def)

lemma fold_body_ragged:
  assumes "getitem (tables h ! df) ''labels'' = Inr c" and "shape c = None"
  shows "fold_body n d f df h = (Inl ValueError, h)"
  using assms by (simp add: fold_body_def np_array_def)

lemma fold_body_nested:
  assumes "getitem (tables h ! df) ''labels'' = Inr c" and "shape c \<noteq> None"
    and "ndim c \<noteq> 1"
  shows "fold_body n d f df h = (Inr (), h)"
  using assms by (auto simp add: fold_body_def np_array_def)

lemma fold_body_flat_ok:
  assumes "getitem (tables h ! df) ''labels'' = Inr (Flat ls)" and "ls \<noteq> []"
    and "int (length (remdups ls)) \<le> n" and "list_all (in_bounds n) ls"
    and "num_rows (filter (\<lambda>kv. fst kv \<noteq> ''labels'') (tables h ! df)) = length ls"
  shows "fold_body n d f df h =
           (Inr (), h\<lparr>tables := tables h @ [tables h ! df,
                           filter (\<lambda>kv. fst kv \<noteq> ''labels'') (tables h ! df),
                           one_hot_table n (tables h ! df) ls],
                      dicts := (dicts h)[d := setitem (dicts h ! d) f (length (tables h) + 2)]\<rparr>)"
proof -
  have n0: "\<not> n < 0" using assms(3) by linarith
  have k: "''labels'' \<in> set (map fst (tables h ! df))" by (rule getitem_keys [OF assms(1)])
  have nd: "ndim (Flat ls) = 1" by (simp add: ndim_def)
  show ?thesis
    using assms n0 k nd filter_keys [of "tables h ! df"]
    by (simp add: body_defs one_hot_table_def nth_append)
qed

lemma fold_body_assert:
  assumes "getitem (tables h ! df) ''labels'' = Inr (Flat ls)"
    and "\<not> int (length (remdups ls)) \<le> n"
  shows "fold_body n d f df h = (Inl AssertionError, h\<lparr>tables := tables h @ [tables h ! df]\<rparr>)"
proof -
  have nd: "ndim (Flat ls) = 1" by (simp add: ndim_def)
  show ?thesis using assms nd by (simp add: body_defs nth_append)
qed

lemma fold_body_flat_fail:
  assumes g: "getitem (tables h ! df) ''labels'' = Inr c" and nd: "ndim c = 1"
    and bad: "\<not> (integer_dtype c \<and> int (length (unique c)) \<le> n \<and>
                list_all (in_bounds n) (leaves c) \<and>
                num_rows (filter (\<lambda>kv. fst kv \<noteq> ''labels'') (tables h ! df)) = len_col c)"
  shows "\<exists>e new. fold_body n d f df h = (Inl e, h\<lparr>tables := tables h @ new\<rparr>)"
proof -
  from ndim_one_shape [OF nd] obtain s where sh: "shape c = Some s" by auto
  have k: "''labels'' \<in> set (map fst (tables h ! df))" by (rule getitem_keys [OF g])
  let ?t = "tables h ! df"
  let ?t1 = "filter (\<lambda>kv. fst kv \<noteq> ''labels'') ?t"
  consider (a) "\<not> int (length (unique c)) \<le> n"
    | (b) "int (length (unique c)) \<le> n" "\<not> integer_dtype c"
    | (c) "int (length (unique c)) \<le> n" "integer_dtype c" "\<not> list_all (in_bounds n) (leaves c)"
    | (d) "int (length (unique c)) \<le> n" "integer_dtype c" "list_all (in_bounds n) (leaves c)"
          "num_rows ?t1 \<noteq> len_col c"
    using bad by blast
  then show ?thesis
  proof cases
    case a
    then have "fold_body n d f df h = (Inl AssertionError, h\<lparr>tables := tables h @ [?t]\<rparr>)"
      using g nd sh by (simp add: body_defs nth_append)
    then show ?thesis by blast
  next
    case b
    then have n0: "\<not> n < 0" by linarith
    have "fold_body n d f df h = (Inl IndexError, h\<lparr>tables := tables h @ [?t]\<rparr>)"
      using g nd sh b n0 by (simp add: body_defs nth_append)
    then show ?thesis by blast
  next
    case c
    then have n0: "\<not> n < 0" by linarith
    have "fold_body n d f df h = (Inl IndexError, h\<lparr>tables := tables h @ [?t]\<rparr>)"
      using g nd sh c n0 by (simp add: body_defs nth_append)
    then show ?thesis by blast
  next
    case d
    then have n0: "\<not> n < 0" by linarith
    have "fold_body n d f df h = (Inl ValueError, h\<lparr>tables := tables h @ [?t, ?t1]\<rparr>)"
      using g nd sh d n0 k filter_keys [of ?t]
      by (simp add: body_defs nth_append len_col_take_rows)
    then show ?thesis by blast
  qed
qed

lemma flat_of_ndim_one:
  assumes "ndim c = 1" and "integer_dtype c"
  shows "c = Flat (leaves c) \<and> leaves c \<noteq> []"
proof -
  from assms(1) have "(\<exists>ls. c = Flat ls) \<or> c = Nested []" by (simp only: ndim_one)
  with assms(2) show ?thesis by (auto simp: integer_dtype_def)
qed

lemma map_fst_update_same: "i < length xs \<Longrightarrow> map fst (xs[i := (fst (xs ! i), v)]) = map fst xs"
  by (simp add: map_update list_update_same_conv)

lemma loop_post_stop:
  assumes "\<not> fold_ok n (tables h ! snd (dicts h ! d ! i))"
    and "\<And>ls. getitem (tables h ! snd (dicts h ! d ! i)) ''labels'' = Inr (Flat ls) \<Longrightarrow>
           \<not> int (length (remdups ls)) \<le> n \<Longrightarrow> e = AssertionError"
    and "tables h' = tables h @ new" and "dicts h' = dicts h"
  shows "loop_post n d i (Suc k) h (Inl e) h'"
  unfolding loop_post_def using assms
  by (auto intro!: exI [of _ i])


lemma loop_post_skip:
  assumes ok: "fold_ok n (tables h ! snd (dicts h ! d ! i))"
    and nested: "getitem (tables h ! snd (dicts h ! d ! i)) ''labels'' = Inr c" "ndim c \<noteq> 1"
    and rest: "loop_post n d (Suc i) k h r h'"
  shows "loop_post n d i (Suc k) h r h'"
proof -
  from rest have same: "dicts h' ! d ! i = dicts h ! d ! i"
    by (simp add: loop_post_def)
  have here: "formatted_entry n h h' (dicts h ! d ! i) (dicts h' ! d ! i)"
    using nested same by (simp add: formatted_entry_def)
  have split: "\<And>j. i \<le> j \<Longrightarrow> j = i \<or> Suc i \<le> j" by arith
  show ?thesis
  proof (cases r)
    case (Inr u)
    with rest have all: "\<forall>j. Suc i \<le> j \<and> j < Suc i + k \<longrightarrow>
              fold_ok n (tables h ! snd (dicts h ! d ! j)) \<and>
              formatted_entry n h h' (dicts h ! d ! j) (dicts h' ! d ! j)"
      by (simp add: loop_post_def)
    have "\<forall>j. i \<le> j \<and> j < i + Suc k \<longrightarrow>
              fold_ok n (tables h ! snd (dicts h ! d ! j)) \<and>
              formatted_entry n h h' (dicts h ! d ! j) (dicts h' ! d ! j)"
    proof (intro allI impI)
      fix j assume j: "i \<le> j \<and> j < i + Suc k"
      then consider "j = i" | "Suc i \<le> j \<and> j < Suc i + k" by fastforce
      then show "fold_ok n (tables h ! snd (dicts h ! d ! j)) \<and>
              formatted_entry n h h' (dicts h ! d ! j) (dicts h' ! d ! j)"
        using ok here all by cases blast+
    qed
    with rest Inr show ?thesis by (simp add: loop_post_def)
  next
    case (Inl e)
    with rest obtain j where j: "Suc i \<le> j" "j < Suc i + k"
      "\<forall>j'. Suc i \<le> j' \<and> j' < j \<longrightarrow> fold_ok n (tables h ! snd (dicts h ! d ! j'))"
      "\<not> fold_ok n (tables h ! snd (dicts h ! d ! j))"
      "\<forall>ls. getitem (tables h ! snd (dicts h ! d ! j)) ''labels'' = Inr (Flat ls) \<longrightarrow>
                    \<not> int (length (remdups ls)) \<le> n \<longrightarrow> e = AssertionError"
      by (auto simp: loop_post_def)
    have before: "\<forall>j'. i \<le> j' \<and> j' < j \<longrightarrow> fold_ok n (tables h ! snd (dicts h ! d ! j'))"
    proof (intro allI impI)
      fix j' assume "i \<le> j' \<and> j' < j"
      then consider "j' = i" | "Suc i \<le> j' \<and> j' < j" by fastforce
      then show "fold_ok n (tables h ! snd (dicts h ! d ! j'))"
        using ok j(3) by cases blast+
    qed
    have "\<exists>j. i \<le> j \<and> j < i + Suc k \<and>
              (\<forall>j'. i \<le> j' \<and> j' < j \<longrightarrow> fold_ok n (tables h ! snd (dicts h ! d ! j'))) \<and>
              \<not> fold_ok n (tables h ! snd (dicts h ! d ! j)) \<and>
              (\<forall>ls. getitem (tables h ! snd (dicts h ! d ! j)) ''labels'' = Inr (Flat ls) \<longrightarrow>
                    \<not> int (length (remdups ls)) \<le> n \<longrightarrow> e = AssertionError)"
      using j before by (intro exI [of _ j]) simp
    with rest Inl show ?thesis by (simp add: loop_post_def)
  qed
qed

lemma formatted_entry_older:
  assumes "formatted_entry n h1 h' old new" and "tables h1 = tables h @ xs"
    and "snd old < length (tables h)"
  shows "formatted_entry n h h' old new"
  using assms
  by (auto simp: formatted_entry_def nth_append split: sum.splits if_splits)

lemma loop_post_step:
  assumes d: "d < length (dicts h)" and il: "i < length (dicts h ! d)"
    and ft: "dicts h ! d ! i = (f, t)" and t: "t < length (tables h)"
    and g: "getitem (tables h ! t) ''labels'' = Inr (Flat ls)"
    and ok: "fold_ok n (tables h ! t)"
    and valid: "\<forall>j. Suc i \<le> j \<and> j < Suc i + k \<longrightarrow> snd (dicts h ! d ! j) < length (tables h)"
    and T1: "tables h1 = tables h @ [a, b, one_hot_table n (tables h ! t) ls]"
    and D1: "dicts h1 = (dicts h)[d := (dicts h ! d)[i := (f, length (tables h) + 2)]]"
    and rest: "loop_post n d (Suc i) k h1 r h'"
  shows "loop_post n d i (Suc k) h r h'"
proof -
  from rest obtain new where new: "tables h' = tables h1 @ new" by (auto simp: loop_post_def)
  have T: "tables h' = tables h @ ([a, b, one_hot_table n (tables h ! t) ls] @ new)"
    using new T1 by simp
  have c1: "\<exists>new. tables h' = tables h @ new" using T by blast
  have c2: "length (dicts h') = length (dicts h)" using rest D1 by (simp add: loop_post_def)
  have c3: "\<forall>d0. d0 \<noteq> d \<longrightarrow> dicts h' ! d0 = dicts h ! d0"
    using rest D1 by (simp add: loop_post_def)
  have d1: "dicts h1 ! d = (dicts h ! d)[i := (f, length (tables h) + 2)]"
    using D1 d by simp
  have "map fst (dicts h1 ! d) = map fst (dicts h ! d)"
    unfolding d1 using map_fst_update_same [OF il, of "length (tables h) + 2"] ft by simp
  with rest have c4: "map fst (dicts h' ! d) = map fst (dicts h ! d)" by (simp add: loop_post_def)
  from rest have keep: "\<forall>j<Suc i. dicts h' ! d ! j = dicts h1 ! d ! j" by (simp add: loop_post_def)
  have c5: "\<forall>j<i. dicts h' ! d ! j = dicts h ! d ! j" using keep d1 by simp
  have at_i: "dicts h' ! d ! i = (f, length (tables h) + 2)" using keep d1 il by simp
  have here: "formatted_entry n h h' (dicts h ! d ! i) (dicts h' ! d ! i)"
    unfolding at_i ft using g T by (simp add: formatted_entry_def nth_append ndim_def)
  have ok_i: "fold_ok n (tables h ! snd (dicts h ! d ! i))" using ok ft by simp
  have same: "\<And>j. Suc i \<le> j \<Longrightarrow> dicts h1 ! d ! j = dicts h ! d ! j" using d1 by simp
  have tab: "\<And>j. Suc i \<le> j \<Longrightarrow> j < Suc i + k \<Longrightarrow>
     tables h1 ! snd (dicts h ! d ! j) = tables h ! snd (dicts h ! d ! j)"
    using valid T1 by (simp add: nth_append)
  show ?thesis
  proof (cases r)
    case (Inr u)
    with rest have all: "\<forall>j. Suc i \<le> j \<and> j < Suc i + k \<longrightarrow>
              fold_ok n (tables h1 ! snd (dicts h1 ! d ! j)) \<and>
              formatted_entry n h1 h' (dicts h1 ! d ! j) (dicts h' ! d ! j)"
      by (simp add: loop_post_def)
    have "\<forall>j. i \<le> j \<and> j < i + Suc k \<longrightarrow>
              fold_ok n (tables h ! snd (dicts h ! d ! j)) \<and>
              formatted_entry n h h' (dicts h ! d ! j) (dicts h' ! d ! j)"
    proof (intro allI impI)
      fix j assume j: "i \<le> j \<and> j < i + Suc k"
      then consider "j = i" | "Suc i \<le> j \<and> j < Suc i + k" by fastforce
      then show "fold_ok n (tables h ! snd (dicts h ! d ! j)) \<and>
              formatted_entry n h h' (dicts h ! d ! j) (dicts h' ! d ! j)"
      proof cases
        case 1
        then show ?thesis using ok_i here by simp
      next
        case 2
        with all have "fold_ok n (tables h1 ! snd (dicts h1 ! d ! j))"
          and fe: "formatted_entry n h1 h' (dicts h1 ! d ! j) (dicts h' ! d ! j)" by blast+
        then have "fold_ok n (tables h ! snd (dicts h ! d ! j))" using same tab 2 by simp
        moreover have "formatted_entry n h h' (dicts h ! d ! j) (dicts h' ! d ! j)"
          using fe same [of j] 2 valid by (intro formatted_entry_older [OF _ T1]) simp_all
        ultimately show ?thesis by simp
      qed
    qed
    with c1 c2 c3 c4 c5 Inr show ?thesis by (simp add: loop_post_def)
  next
    case (Inl e)
    with rest obtain j where j: "Suc i \<le> j" "j < Suc i + k"
      "\<forall>j'. Suc i \<le> j' \<and> j' < j \<longrightarrow> fold_ok n (tables h1 ! snd (dicts h1 ! d ! j'))"
      "\<not> fold_ok n (tables h1 ! snd (dicts h1 ! d ! j))"
      "\<forall>ls. getitem (tables h1 ! snd (dicts h1 ! d ! j)) ''labels'' = Inr (Flat ls) \<longrightarrow>
                    \<not> int (length (remdups ls)) \<le> n \<longrightarrow> e = AssertionError"
      by (auto simp: loop_post_def)
    have eqj: "tables h1 ! snd (dicts h1 ! d ! j) = tables h ! snd (dicts h ! d ! j)"
      using same [OF j(1)] tab [OF j(1) j(2)] by simp
    have before: "\<forall>j'. i \<le> j' \<and> j' < j \<longrightarrow> fold_ok n (tables h ! snd (dicts h ! d ! j'))"
    proof (intro allI impI)
      fix j' assume a: "i \<le> j' \<and> j' < j"
      then consider "j' = i" | "Suc i \<le> j' \<and> j' < j" by fastforce
      then show "fold_ok n (tables h ! snd (dicts h ! d ! j'))"
      proof cases
        case 1
        then show ?thesis using ok_i by simp
      next
        case 2
        then have "fold_ok n (tables h1 ! snd (dicts h1 ! d ! j'))" using j(3) by blast
        moreover have "Suc i \<le> j'" "j' < Suc i + k" using 2 j(2) by simp_all
        ultimately show ?thesis using same [of j'] tab [of j'] by simp
      qed
    qed
    have "\<exists>j. i \<le> j \<and> j < i + Suc k \<and>
              (\<forall>j'. i \<le> j' \<and> j' < j \<longrightarrow> fold_ok n (tables h ! snd (dicts h ! d ! j'))) \<and>
              \<not> fold_ok n (tables h ! snd (dicts h ! d ! j)) \<and>
              (\<forall>ls. getitem (tables h ! snd (dicts h ! d ! j)) ''labels'' = Inr (Flat ls) \<longrightarrow>
                    \<not> int (length (remdups ls)) \<le> n \<longrightarrow> e = AssertionError)"
      using j before eqj by (intro exI [of _ j]) simp
    with c1 c2 c3 c4 c5 Inl show ?thesis by (simp add: loop_post_def)
  qed
qed


lemma fold_body_not_ok:
  assumes bad: "\<not> fold_ok n (tables h ! df)"
  shows "\<exists>e new. fold_body n d f df h = (Inl e, h\<lparr>tables := tables h @ new\<rparr>) \<and>
           (\<forall>ls. getitem (tables h ! df) ''labels'' = Inr (Flat ls) \<longrightarrow>
                 \<not> int (length (remdups ls)) \<le> n \<longrightarrow> e = AssertionError)"
proof (cases "getitem (tables h ! df) ''labels''")
  case (Inl e)
  then have "fold_body n d f df h = (Inl e, h\<lparr>tables := tables h @ []\<rparr>)"
    by (simp add: fold_body_keyerror)
  with Inl show ?thesis by (intro exI [of _ e] exI [of _ "[]"]) simp
next
  case (Inr c)
  show ?thesis
  proof (cases "shape c")
    case None
    with Inr have "fold_body n d f df h = (Inl ValueError, h\<lparr>tables := tables h @ []\<rparr>)"
      by (simp add: fold_body_ragged)
    moreover have "\<And>ls. c \<noteq> Flat ls" using None by auto
    ultimately show ?thesis using Inr
      by (intro exI [of _ ValueError] exI [of _ "[]"]) simp
  next
    case (Some s)
    with bad Inr have nd: "ndim c = 1"
      and no: "\<not> (integer_dtype c \<and> int (length (unique c)) \<le> n \<and>
                list_all (in_bounds n) (leaves c) \<and>
                num_rows (filter (\<lambda>kv. fst kv \<noteq> ''labels'') (tables h ! df)) = len_col c)"
      by (auto simp: fold_ok_def)
    show ?thesis
    proof (cases "\<exists>ls. c = Flat ls \<and> \<not> int (length (remdups ls)) \<le> n")
      case True
      then obtain ls where c: "c = Flat ls" and len: "\<not> int (length (remdups ls)) \<le> n"
        by blast
      from Inr c have g: "getitem (tables h ! df) ''labels'' = Inr (Flat ls)" by simp
      from fold_body_assert [OF g len]
      have "fold_body n d f df h =
              (Inl AssertionError, h\<lparr>tables := tables h @ [tables h ! df]\<rparr>)" .
      then show ?thesis by (intro exI [of _ AssertionError] exI [of _ "[tables h ! df]"]) simp
    next
      case False
      from fold_body_flat_fail [OF Inr nd no] obtain e new where
        "fold_body n d f df h = (Inl e, h\<lparr>tables := tables h @ new\<rparr>)" by blast
      with False Inr show ?thesis by (intro exI [of _ e] exI [of _ new]) auto
    qed
  qed
qed

lemma items_loop_post:
  assumes "d < length (dicts h)" and "length (dicts h ! d) = i + k"
    and "distinct (map fst (dicts h ! d))"
    and "\<forall>j. i \<le> j \<and> j < i + k \<longrightarrow> snd (dicts h ! d ! j) < length (tables h)"
    and "items_loop n d i k h = (r, h')"
  shows "loop_post n d i k h r h'"
  using assms
proof (induction k arbitrary: i h r h')
  case 0
  then show ?case by (auto simp: loop_post_def)
next
  case (Suc k)
  obtain f t where ft: "dicts h ! d ! i = (f, t)" by (cases "dicts h ! d ! i")
  have "i \<le> i \<and> i < i + Suc k" by simp
  with Suc.prems(4) have "snd (dicts h ! d ! i) < length (tables h)" by blast
  with ft have t: "t < length (tables h)" by simp
  have il: "i < length (dicts h ! d)" using Suc.prems(2) by simp
  note loop = Suc.prems(5)
  have later: "\<forall>j. Suc i \<le> j \<and> j < Suc i + k \<longrightarrow> snd (dicts h ! d ! j) < length (tables h)"
    using Suc.prems(4) by simp
  show ?case
  proof (cases "fold_ok n (tables h ! t)")
    case False
    from fold_body_not_ok [OF False, of d f] obtain e new where
      body: "fold_body n d f t h = (Inl e, h\<lparr>tables := tables h @ new\<rparr>)"
      and err: "\<forall>ls. getitem (tables h ! t) ''labels'' = Inr (Flat ls) \<longrightarrow>
                 \<not> int (length (remdups ls)) \<le> n \<longrightarrow> e = AssertionError" by blast
    from body loop ft have r: "r = Inl e" "h' = h\<lparr>tables := tables h @ new\<rparr>" by simp_all
    have "\<not> fold_ok n (tables h ! snd (dicts h ! d ! i))" using False ft by simp
    then show ?thesis unfolding r
      by (rule loop_post_stop [where new = new]) (use err ft in auto)
  next
    case True
    then obtain c where g: "getitem (tables h ! t) ''labels'' = Inr c"
      and sh: "shape c \<noteq> None"
      and flat: "ndim c = 1 \<longrightarrow> integer_dtype c \<and> int (length (unique c)) \<le> n \<and>
             list_all (in_bounds n) (leaves c) \<and>
             num_rows (filter (\<lambda>kv. fst kv \<noteq> ''labels'') (tables h ! t)) = len_col c"
      by (auto simp: fold_ok_def split: sum.splits)
    have ok: "fold_ok n (tables h ! snd (dicts h ! d ! i))" using True ft by simp
    show ?thesis
    proof (cases "ndim c = 1")
      case False
      have "fold_body n d f t h = (Inr (), h)" using g sh False by (rule fold_body_nested)
      with loop ft have "items_loop n d (Suc i) k h = (r, h')" by simp
      with Suc.prems(1-3) later have rest: "loop_post n d (Suc i) k h r h'"
        by (intro Suc.IH) simp_all
      have "getitem (tables h ! snd (dicts h ! d ! i)) ''labels'' = Inr c" using g ft by simp
      from ok this False rest show ?thesis by (rule loop_post_skip)
    next
      case nd: True
      with flat have int: "integer_dtype c" by blast
      define ls where "ls = leaves c"
      from flat_of_ndim_one [OF nd int] have c: "c = Flat ls" and ne: "ls \<noteq> []"
        by (simp_all add: ls_def)
      from g c have gf: "getitem (tables h ! t) ''labels'' = Inr (Flat ls)" by simp
      from flat nd c have len: "int (length (remdups ls)) \<le> n"
        and inb: "list_all (in_bounds n) ls"
        and rows: "num_rows (filter (\<lambda>kv. fst kv \<noteq> ''labels'') (tables h ! t)) = length ls"
        by (simp_all add: unique_def)
      define h1 where "h1 = h\<lparr>tables := tables h @ [tables h ! t,
                           filter (\<lambda>kv. fst kv \<noteq> ''labels'') (tables h ! t),
                           one_hot_table n (tables h ! t) ls],
                      dicts := (dicts h)[d := setitem (dicts h ! d) f (length (tables h) + 2)]\<rparr>"
      have body: "fold_body n d f t h = (Inr (), h1)"
        unfolding h1_def using gf ne len inb rows by (rule fold_body_flat_ok)
      with loop ft have l1: "items_loop n d (Suc i) k h1 = (r, h')" by simp
      have "setitem (dicts h ! d) (fst (dicts h ! d ! i)) (length (tables h) + 2) =
              (dicts h ! d)[i := (fst (dicts h ! d ! i), length (tables h) + 2)]"
        using Suc.prems(3) il by (rule setitem_nth)
      then have si: "setitem (dicts h ! d) f (length (tables h) + 2) =
              (dicts h ! d)[i := (f, length (tables h) + 2)]" using ft by simp
      have T1: "tables h1 = tables h @ [tables h ! t,
                         filter (\<lambda>kv. fst kv \<noteq> ''labels'') (tables h ! t),
                         one_hot_table n (tables h ! t) ls]" by (simp add: h1_def)
      have D1: "dicts h1 = (dicts h)[d := (dicts h ! d)[i := (f, length (tables h) + 2)]]"
        using si by (simp add: h1_def)
      have d1: "dicts h1 ! d = (dicts h ! d)[i := (f, length (tables h) + 2)]"
        using D1 Suc.prems(1) by simp
      have p1: "d < length (dicts h1)" using D1 Suc.prems(1) by simp
      have p2: "length (dicts h1 ! d) = Suc i + k" using d1 Suc.prems(2) by simp
      have "map fst (dicts h1 ! d) = map fst (dicts h ! d)"
        unfolding d1 using map_fst_update_same [OF il, of "length (tables h) + 2"] ft by simp
      then have p3: "distinct (map fst (dicts h1 ! d))" using Suc.prems(3) by simp
      have p4: "\<forall>j. Suc i \<le> j \<and> j < Suc i + k \<longrightarrow> snd (dicts h1 ! d ! j) < length (tables h1)"
        using later d1 T1 by auto
      have rest: "loop_post n d (Suc i) k h1 r h'"
        using p1 p2 p3 p4 l1 by (rule Suc.IH)
      show ?thesis
        using Suc.prems(1) il ft t gf True later T1 D1 rest by (rule loop_post_step)
    qed
  qed
qed

lemma classification_post:
  assumes wf: "wf_mapping h data"
    and run: "Classification_format_data_by_training_task n data h = (r, h')"
  shows "\<exists>r0. loop_post n (length (dicts h)) 0 (length (dicts h ! data))
               (h\<lparr>dicts := dicts h @ [dicts h ! data]\<rparr>) r0 h' \<and>
             r = (case r0 of Inl e \<Rightarrow> Inl e | Inr u \<Rightarrow> Inr (length (dicts h)))"
proof -
  define h0 where "h0 = h\<lparr>dicts := dicts h @ [dicts h ! data]\<rparr>"
  define d where "d = length (dicts h)"
  have d0: "dicts h0 ! d = dicts h ! data" by (simp add: h0_def d_def)
  obtain r0 h2 where loop: "items_loop n d 0 (length (dicts h ! data)) h0 = (r0, h2)"
    by (cases "items_loop n d 0 (length (dicts h ! data)) h0")
  have p1: "d < length (dicts h0)" by (simp add: h0_def d_def)
  have p2: "length (dicts h0 ! d) = 0 + length (dicts h ! data)" by (simp add: d0)
  have p3: "distinct (map fst (dicts h0 ! d))" using wf by (simp add: d0 wf_mapping_def)
  have p4: "\<forall>j. 0 \<le> j \<and> j < 0 + length (dicts h ! data) \<longrightarrow>
              snd (dicts h0 ! d ! j) < length (tables h0)"
  proof -
    have "tables h0 = tables h" by (simp add: h0_def)
    then show ?thesis using wf by (simp add: d0 wf_mapping_def list_all_length)
  qed
  have post: "loop_post n d 0 (length (dicts h ! data)) h0 r0 h2"
    using p1 p2 p3 p4 loop by (rule items_loop_post)
  have "Classification_format_data_by_training_task n data h =
          (case r0 of Inl e \<Rightarrow> Inl e | Inr u \<Rightarrow> Inr d, h2)"
    using loop
    by (simp add: Classification_format_data_by_training_task_def copy_dict_def d0
          h0_def [symmetric] d_def [symmetric] split: sum.splits)
  with run have "r = (case r0 of Inl e \<Rightarrow> Inl e | Inr u \<Rightarrow> Inr d)" "h' = h2" by simp_all
  with post show ?thesis unfolding h0_def d_def by blast
qed

lemma map_of_nth:
  "distinct (map fst xs) \<Longrightarrow> i < length xs \<Longrightarrow> map_of xs (fst (xs ! i)) = Some (snd (xs ! i))"
  by simp

lemma map_of_index:
  assumes "map_of xs k = Some v"
  shows "\<exists>i<length xs. xs ! i = (k, v)"
  using map_of_SomeD [OF assms] by (simp add: in_set_conv_nth)

lemma getitem_one_hot_table:
  "getitem (one_hot_table n t ls) ''labels'' = Inr (take_rows n (Flat ls))"
proof -
  have "map_of (filter (\<lambda>kv. fst kv \<noteq> ''labels'') t) ''labels'' = None"
    by (induction t) auto
  then show ?thesis by (simp add: getitem_def one_hot_table_def map_add_def)
qed

lemma getitem_one_hot_table_other:
  assumes "name \<noteq> ''labels''"
  shows "getitem (one_hot_table n t ls) name = getitem t name"
proof -
  have "map_of (filter (\<lambda>kv. fst kv \<noteq> ''labels'') t) name = map_of t name"
    using assms by (induction t) auto
  then show ?thesis using assms
    by (auto simp add: getitem_def one_hot_table_def map_add_def split: option.splits)
qed

lemma distinct_in_range:
  assumes "\<forall>l\<in>set ls. 0 \<le> sint l \<and> sint l < n" and "0 \<le> n"
  shows "int (length (remdups (ls :: int64 list))) \<le> n"
proof -
  have inj: "inj_on sint (set ls)" by (rule inj_onI) (rule signed_word_eqI)
  have sub: "sint ` set ls \<subseteq> {0..<n}" using assms(1) by auto
  have "length (remdups ls) = card (set ls)" by (simp add: length_remdups_card_conv)
  also have "\<dots> = card (sint ` set ls)" using inj by (simp add: card_image)
  also have "\<dots> \<le> card {0..<n}" using sub by (intro card_mono) simp_all
  also have "\<dots> = nat n" by simp
  finally show ?thesis using assms(2) by simp
qed

lemma in_range_in_bounds:
  assumes "\<forall>l\<in>set ls. 0 \<le> sint l \<and> sint l < n"
  shows "list_all (in_bounds n) ls"
  using assms by (auto simp add: list_all_iff in_bounds_def wrap_index_def)

lemma take_rows_in_range:
  assumes "\<forall>l\<in>set ls. 0 \<le> sint l \<and> sint l < n"
  shows "take_rows n (Flat ls) = Nested (map (\<lambda>l. Flat (eye_row (nat n) (nat (sint l)))) ls)"
  using assms by (auto simp add: wrap_index_def)

lemma eye_row_length: "length (eye_row n i) = n"
  by (simp add: eye_row_def)

lemma eye_row_nth: "j < n \<Longrightarrow> eye_row n i ! j = (if j = i then 1 else 0)"
  by (simp add: eye_row_def)

lemma eye_row_split:
  assumes "i < n"
  shows "eye_row n i = replicate i 0 @ 1 # replicate (n - Suc i) 0"
proof (rule nth_equalityI)
  show "length (eye_row n i) = length (replicate i 0 @ 1 # replicate (n - Suc i) (0::int64))"
    using assms by (simp add: eye_row_length)
next
  fix j assume "j < length (eye_row n i)"
  then have j: "j < n" by (simp add: eye_row_length)
  show "eye_row n i ! j = (replicate i 0 @ 1 # replicate (n - Suc i) (0::int64)) ! j"
    using j assms by (auto simp: eye_row_nth nth_append nth_Cons split: nat.splits)
qed

lemma argmax_eye_row:
  assumes "i < n"
  shows "argmax (eye_row n i) = i"
proof -
  have set: "set (map sint (eye_row n i)) = (if n = 1 then {1} else {0, 1})"
    using assms unfolding eye_row_split [OF assms] by (auto simp: )
  have "Max (set (map sint (eye_row n i))) = 1"
    unfolding set by simp
  then have "argmax (eye_row n i) = length (takeWhile (\<lambda>x. sint x \<noteq> 1) (eye_row n i))"
    by (simp add: argmax_def)
  also have "\<dots> = length (takeWhile (\<lambda>x. sint x \<noteq> 1)
                        (replicate i (0::int64) @ 1 # replicate (n - Suc i) 0))"
    by (simp only: eye_row_split [OF assms])
  also have "\<dots> = i"
    by (simp add: takeWhile_append)
  finally show ?thesis .
qed

lemma formatted_entry_tables:
  "tables h0 = tables h \<Longrightarrow> formatted_entry n h0 h' old new = formatted_entry n h h' old new"
  by (simp add: formatted_entry_def split: sum.splits)

lemma classification_frame:
  assumes wf: "wf_mapping h data"
    and run: "Classification_format_data_by_training_task n data h = (r, h')"
  shows "(\<exists>new. tables h' = tables h @ new) \<and>
         length (dicts h') = Suc (length (dicts h)) \<and>
         (\<forall>d0<length (dicts h). dicts h' ! d0 = dicts h ! d0) \<and>
         map fst (dicts h' ! length (dicts h)) = map fst (dicts h ! data)"
proof -
  from classification_post [OF wf run] obtain r0 where
    post: "loop_post n (length (dicts h)) 0 (length (dicts h ! data))
               (h\<lparr>dicts := dicts h @ [dicts h ! data]\<rparr>) r0 h'" by blast
  have "\<forall>d0<length (dicts h). dicts h' ! d0 = dicts h ! d0"
  proof (intro allI impI)
    fix d0 assume d0: "d0 < length (dicts h)"
    then have "d0 \<noteq> length (dicts h)" by simp
    with post have "dicts h' ! d0 = (dicts h @ [dicts h ! data]) ! d0"
      by (simp add: loop_post_def)
    with d0 show "dicts h' ! d0 = dicts h ! d0" by (simp add: nth_append)
  qed
  with post show ?thesis by (simp add: loop_post_def)
qed

lemma classification_success:
  assumes wf: "wf_mapping h data"
    and run: "Classification_format_data_by_training_task n data h = (Inr data', h')"
  shows "data' = length (dicts h) \<and>
         (\<forall>j<length (dicts h ! data).
            fold_ok n (tables h ! snd (dicts h ! data ! j)) \<and>
            formatted_entry n h h' (dicts h ! data ! j) (dicts h' ! data' ! j))"
proof -
  define h0 where "h0 = h\<lparr>dicts := dicts h @ [dicts h ! data]\<rparr>"
  from classification_post [OF wf run] obtain r0 where
    post: "loop_post n (length (dicts h)) 0 (length (dicts h ! data)) h0 r0 h'"
    and r: "Inr data' = (case r0 of Inl e \<Rightarrow> Inl e | Inr u \<Rightarrow> Inr (length (dicts h)))"
    unfolding h0_def by blast
  from r obtain u where r0: "r0 = Inr u" and d: "data' = length (dicts h)"
    by (cases r0) simp_all
  have t0: "tables h0 = tables h" and d0: "dicts h0 ! length (dicts h) = dicts h ! data"
    by (simp_all add: h0_def)
  from post r0 have "\<forall>j<length (dicts h ! data).
            fold_ok n (tables h0 ! snd (dicts h0 ! length (dicts h) ! j)) \<and>
            formatted_entry n h0 h' (dicts h0 ! length (dicts h) ! j) (dicts h' ! length (dicts h) ! j)"
    by (simp add: loop_post_def)
  then show ?thesis
    unfolding d0 t0 formatted_entry_tables [OF t0] using d by simp
qed

lemma classification_failure:
  assumes wf: "wf_mapping h data"
    and run: "Classification_format_data_by_training_task n data h = (Inl e, h')"
  shows "\<exists>j<length (dicts h ! data).
           (\<forall>j'<j. fold_ok n (tables h ! snd (dicts h ! data ! j'))) \<and>
           \<not> fold_ok n (tables h ! snd (dicts h ! data ! j)) \<and>
           (\<forall>ls. getitem (tables h ! snd (dicts h ! data ! j)) ''labels'' = Inr (Flat ls) \<longrightarrow>
                 \<not> int (length (remdups ls)) \<le> n \<longrightarrow> e = AssertionError)"
proof -
  define h0 where "h0 = h\<lparr>dicts := dicts h @ [dicts h ! data]\<rparr>"
  from classification_post [OF wf run] obtain r0 where
    post: "loop_post n (length (dicts h)) 0 (length (dicts h ! data)) h0 r0 h'"
    and r: "Inl e = (case r0 of Inl e \<Rightarrow> Inl e | Inr u \<Rightarrow> Inr (length (dicts h)))"
    unfolding h0_def by blast
  from r have r0: "r0 = Inl e" by (cases r0) simp_all
  have t0: "tables h0 = tables h" and d0: "dicts h0 ! length (dicts h) = dicts h ! data"
    by (simp_all add: h0_def)
  from post r0 show ?thesis
    unfolding loop_post_def d0 t0 by auto
qed

lemma dict_getitem_index:
  assumes "dict_getitem xs k = Inr v"
  shows "\<exists>i<length xs. xs ! i = (k, v)"
proof -
  from assms have "map_of xs k = Some v"
    by (simp add: dict_getitem_def split: option.splits)
  then show ?thesis by (rule map_of_index)
qed

lemma dict_getitem_nth:
  assumes "distinct (map fst xs)" and "i < length xs"
  shows "dict_getitem xs (fst (xs ! i)) = Inr (snd (xs ! i))"
  using map_of_nth [OF assms] by (simp add: dict_getitem_def)

lemma distinct_keys_neq:
  assumes "distinct (map fst xs)" and "i < length xs" and "j < length xs" and "j \<noteq> i"
  shows "fst (xs ! j) \<noteq> fst (xs ! i)"
proof -
  have "map fst xs ! j \<noteq> map fst xs ! i"
    using assms by (simp add: nth_eq_iff_index_eq del: nth_map)
  then show ?thesis using assms by simp
qed

lemma fold_ok_in_range:
  assumes "getitem t ''labels'' = Inr (Flat ls)"
    and "\<forall>l\<in>set ls. 0 \<le> sint l \<and> sint l < n" and "ls \<noteq> []"
    and "num_rows (filter (\<lambda>kv. fst kv \<noteq> ''labels'') t) = length ls"
  shows "fold_ok n t"
proof -
  from assms(3) obtain l where "l \<in> set ls" by (cases ls) auto
  with assms(2) have n0: "0 \<le> n" by force
  show ?thesis
    using assms distinct_in_range [OF assms(2) n0] in_range_in_bounds [OF assms(2)]
    by (simp add: fold_ok_def unique_def integer_dtype_def)
qed

lemma formatted_entry_refs:
  assumes "formatted_entry n h h' (f, df) (f', df')"
  shows "f' = f \<and> (\<exists>c. getitem (tables h ! df) ''labels'' = Inr c \<and>
           (if ndim c = 1 then length (tables h) \<le> df' \<and> df' < length (tables h') else df' = df))"
  using assms by (auto simp: formatted_entry_def split: sum.splits if_splits)

lemma classification_entry:
  assumes wf: "wf_mapping h data"
    and run: "Classification_format_data_by_training_task n data h = (Inr data', h')"
    and fold: "dict_getitem (dicts h ! data) f = Inr df"
  shows "\<exists>df'. dict_getitem (dicts h' ! data') f = Inr df' \<and>
               formatted_entry n h h' (f, df) (f, df')"
proof -
  let ?xs = "dicts h ! data" and ?ys = "dicts h' ! data'"
  from wf have dist: "distinct (map fst ?xs)" by (simp add: wf_mapping_def)
  from classification_success [OF wf run]
  have d': "data' = length (dicts h)"
    and all: "\<forall>j<length ?xs. formatted_entry n h h' (?xs ! j) (?ys ! j)" by blast+
  from classification_frame [OF wf run] d'
  have keys: "map fst ?ys = map fst ?xs" by simp
  then have leny: "length ?ys = length ?xs" by (rule map_eq_imp_length_eq)
  have dist': "distinct (map fst ?ys)" using dist keys by simp
  from dict_getitem_index [OF fold] obtain i where i: "i < length ?xs"
    and at: "?xs ! i = (f, df)" by blast
  from all i have "formatted_entry n h h' (?xs ! i) (?ys ! i)" by blast
  with at have fe: "formatted_entry n h h' (f, df) (fst (?ys ! i), snd (?ys ! i))" by simp
  then have fi: "fst (?ys ! i) = f" by (simp add: formatted_entry_def)
  have "dict_getitem ?ys (fst (?ys ! i)) = Inr (snd (?ys ! i))"
    using dist' i leny by (intro dict_getitem_nth) simp_all
  with fi fe show ?thesis by auto
qed

section \<open>Classification formatting: the claims\<close>

lemmas eval_defs = Classification_format_data_by_training_task_def copy_dict_def
  fold_body_def getitem_def format_dataset_dtype_int64_def new_table_def
  format_one_hot_labels_def unique_def eye_index_def integer_dtype_def np_array_def ndim_def
  num_rows_def in_bounds_def wrap_index_def remove_columns_def add_column_def
  dict_setitem_def eye_row_def upt_conv_Cons

text \<open>
  C1, as stated, does not hold for every fold with flat labels in range.  On a table
  whose only column is the labels column (labels \<open>[0, 2, 1]\<close>, \<open>num_labels = 3\<close>) removing
  that column leaves a table without rows, and adding the one-hot column raises
  ValueError.  On a fold without examples the labels array has no element, is not an
  integer array, and indexing the identity matrix with it raises IndexError.
\<close>

theorem classification_one_hot_counterexample:
  "wf_mapping (one_fold_store (Flat [0, 2, 1])) 0 \<and>
   dict_getitem (dicts (one_fold_store (Flat [0, 2, 1])) ! 0) ''train'' = Inr 0 \<and>
   getitem (tables (one_fold_store (Flat [0, 2, 1])) ! 0) ''labels'' = Inr (Flat [0, 2, 1]) \<and>
   list_all (\<lambda>l. 0 \<le> sint l \<and> sint l < 3) [0, 2, 1 :: int64] \<and>
   fst (Classification_format_data_by_training_task 3 0 (one_fold_store (Flat [0, 2, 1]))) =
     Inl ValueError \<and>
   wf_mapping empty_fold_store 0 \<and>
   dict_getitem (dicts empty_fold_store ! 0) ''train'' = Inr 0 \<and>
   getitem (tables empty_fold_store ! 0) ''labels'' = Inr (Flat []) \<and>
   list_all (\<lambda>l. 0 \<le> sint l \<and> sint l < 3) ([] :: int64 list) \<and>
   fst (Classification_format_data_by_training_task 3 0 empty_fold_store) = Inl IndexError"
  by (simp add: eval_defs wf_mapping_def dict_getitem_def one_fold_store_def
      empty_fold_store_def)

text \<open>
  C1, amended.  Take a well-formed fold mapping and a fold \<open>f\<close> of it whose labels
  column is flat and not empty, with every label \<open>l\<close> in \<open>{0, \<dots>, num_labels - 1}\<close>, and
  whose table without the labels column has one row per label (so it has another
  column).  Then the loop body succeeds on this fold, and classification formatting
  either returns a mapping in which \<open>f\<close> names a table whose labels column holds, for
  each label, the row of the identity matrix of size \<open>num_labels\<close> for that label, and
  whose other columns are those of the caller's table, or it raises because of a
  different fold on which the loop body raises.  Each such row has length \<open>num_labels\<close>,
  a one at the position of the label and a zero at every other position, and its argmax
  is the label.  The witness is the example of the spec: \<open>num_labels = 3\<close> and labels
  \<open>[0, 2, 1]\<close> give \<open>[[1,0,0],[0,0,1],[0,1,0]]\<close>.
\<close>

theorem classification_one_hot:
  assumes wf: "wf_mapping h data"
    and fold: "dict_getitem (dicts h ! data) f = Inr df"
    and flat: "getitem (tables h ! df) ''labels'' = Inr (Flat ls)"
    and nonempty: "ls \<noteq> []"
    and range: "\<forall>l\<in>set ls. 0 \<le> sint l \<and> sint l < n"
    and rest: "num_rows (filter (\<lambda>kv. fst kv \<noteq> ''labels'') (tables h ! df)) = length ls"
  shows "((\<exists>data' h' df'.
             Classification_format_data_by_training_task n data h = (Inr data', h') \<and>
             dict_getitem (dicts h' ! data') f = Inr df' \<and>
             getitem (tables h' ! df') ''labels'' =
               Inr (Nested (map (\<lambda>l. Flat (eye_row (nat n) (nat (sint l)))) ls)) \<and>
             (\<forall>name. name \<noteq> ''labels'' \<longrightarrow>
                getitem (tables h' ! df') name = getitem (tables h ! df) name))
          \<or> (\<exists>e h' f' df'.
             Classification_format_data_by_training_task n data h = (Inl e, h') \<and>
             f' \<noteq> f \<and> dict_getitem (dicts h ! data) f' = Inr df' \<and>
             \<not> fold_ok n (tables h ! df')))
         \<and> (\<forall>d. fst (fold_body n d f df h) = Inr ())
         \<and> (\<forall>l\<in>set ls. length (eye_row (nat n) (nat (sint l))) = nat n \<and>
                         argmax (eye_row (nat n) (nat (sint l))) = nat (sint l) \<and>
                         (\<forall>j<nat n. eye_row (nat n) (nat (sint l)) ! j =
                                       (if j = nat (sint l) then 1 else 0)))"
proof -
  let ?xs = "dicts h ! data"
  from wf have dist: "distinct (map fst ?xs)" by (simp add: wf_mapping_def)
  from dict_getitem_index [OF fold] obtain i where i: "i < length ?xs" and at: "?xs ! i = (f, df)"
    by blast
  have ok: "fold_ok n (tables h ! df)" using flat range nonempty rest by (rule fold_ok_in_range)
  from nonempty obtain l0 where "l0 \<in> set ls" by (cases ls) auto
  with range have n0: "0 \<le> n" by force
  obtain r h' where run: "Classification_format_data_by_training_task n data h = (r, h')"
    by (cases "Classification_format_data_by_training_task n data h")
  have part1: "(\<exists>data' h' df'.
             Classification_format_data_by_training_task n data h = (Inr data', h') \<and>
             dict_getitem (dicts h' ! data') f = Inr df' \<and>
             getitem (tables h' ! df') ''labels'' =
               Inr (Nested (map (\<lambda>l. Flat (eye_row (nat n) (nat (sint l)))) ls)) \<and>
             (\<forall>name. name \<noteq> ''labels'' \<longrightarrow>
                getitem (tables h' ! df') name = getitem (tables h ! df) name))
          \<or> (\<exists>e h' f' df'.
             Classification_format_data_by_training_task n data h = (Inl e, h') \<and>
             f' \<noteq> f \<and> dict_getitem (dicts h ! data) f' = Inr df' \<and>
             \<not> fold_ok n (tables h ! df'))"
  proof (cases r)
    case (Inr data')
    with run have run': "Classification_format_data_by_training_task n data h = (Inr data', h')"
      by simp
    let ?ys = "dicts h' ! data'"
    from classification_success [OF wf run'] i at
    have d': "data' = length (dicts h)" and fe: "formatted_entry n h h' (f, df) (?ys ! i)"
      by auto
    from classification_frame [OF wf run'] d'
    have keys: "map fst ?ys = map fst ?xs" by simp
    then have len: "length ?ys = length ?xs" by (rule map_eq_imp_length_eq)
    have dist': "distinct (map fst ?ys)" using dist keys by simp
    from fe flat have fst_i: "fst (?ys ! i) = f"
      and tab: "tables h' ! snd (?ys ! i) = one_hot_table n (tables h ! df) ls"
      by (simp_all add: formatted_entry_def ndim_def)
    have "dict_getitem ?ys (fst (?ys ! i)) = Inr (snd (?ys ! i))"
      using dist' i len by (intro dict_getitem_nth) simp_all
    then have g1: "dict_getitem ?ys f = Inr (snd (?ys ! i))" using fst_i by simp
    have g2: "getitem (tables h' ! snd (?ys ! i)) ''labels'' =
               Inr (Nested (map (\<lambda>l. Flat (eye_row (nat n) (nat (sint l)))) ls))"
      unfolding tab getitem_one_hot_table take_rows_in_range [OF range] ..
    have g3: "\<forall>name. name \<noteq> ''labels'' \<longrightarrow>
                getitem (tables h' ! snd (?ys ! i)) name = getitem (tables h ! df) name"
      unfolding tab by (simp add: getitem_one_hot_table_other)
    from run' g1 g2 g3 show ?thesis by blast
  next
    case (Inl e)
    with run have run': "Classification_format_data_by_training_task n data h = (Inl e, h')"
      by simp
    from classification_failure [OF wf run'] obtain j where j: "j < length ?xs"
      and bad: "\<not> fold_ok n (tables h ! snd (?xs ! j))" by blast
    have "j \<noteq> i" using bad ok at by auto
    with dist i j have "fst (?xs ! j) \<noteq> fst (?xs ! i)" by (intro distinct_keys_neq)
    then have ne: "fst (?xs ! j) \<noteq> f" using at by simp
    have "dict_getitem ?xs (fst (?xs ! j)) = Inr (snd (?xs ! j))"
      using dist j by (rule dict_getitem_nth)
    with run' ne bad show ?thesis by blast
  qed
  have part2: "\<forall>d. fst (fold_body n d f df h) = Inr ()"
    using fold_body_flat_ok [OF flat nonempty distinct_in_range [OF range n0]
        in_range_in_bounds [OF range] rest]
    by simp
  have part3: "\<forall>l\<in>set ls. length (eye_row (nat n) (nat (sint l))) = nat n \<and>
                         argmax (eye_row (nat n) (nat (sint l))) = nat (sint l) \<and>
                         (\<forall>j<nat n. eye_row (nat n) (nat (sint l)) ! j =
                                       (if j = nat (sint l) then 1 else 0))"
  proof
    fix l assume "l \<in> set ls"
    with range have "nat (sint l) < nat n" by auto
    then show "length (eye_row (nat n) (nat (sint l))) = nat n \<and>
                         argmax (eye_row (nat n) (nat (sint l))) = nat (sint l) \<and>
                         (\<forall>j<nat n. eye_row (nat n) (nat (sint l)) ! j =
                                       (if j = nat (sint l) then 1 else 0))"
      by (simp add: eye_row_length argmax_eye_row eye_row_nth)
  qed
  from part1 part2 part3 show ?thesis by blast
qed

theorem classification_one_hot_witness:
  "wf_mapping three_row_store 0 \<and>
   dict_getitem (dicts three_row_store ! 0) ''train'' = Inr 0 \<and>
   getitem (tables three_row_store ! 0) ''labels'' = Inr (Flat [0, 2, 1]) \<and>
   [0, 2, 1 :: int64] \<noteq> [] \<and>
   list_all (\<lambda>l. 0 \<le> sint l \<and> sint l < 3) [0, 2, 1 :: int64] \<and>
   num_rows (filter (\<lambda>kv. fst kv \<noteq> ''labels'') (tables three_row_store ! 0)) =
     length [0, 2, 1 :: int64] \<and>
   (\<exists>data' h' df'.
      Classification_format_data_by_training_task 3 0 three_row_store = (Inr data', h') \<and>
      dict_getitem (dicts h' ! data') ''train'' = Inr df' \<and>
      getitem (tables h' ! df') ''labels'' =
        Inr (Nested [Flat [1, 0, 0], Flat [0, 0, 1], Flat [0, 1, 0]]) \<and>
      getitem (tables h' ! df') ''input_ids'' =
        Inr (Nested [Flat [101, 7], Flat [101, 9], Flat [101, 4]]))"
proof -
  let ?h = "three_row_store"
  have a: "wf_mapping ?h 0" by (simp add: wf_mapping_def three_row_store_def)
  have b: "dict_getitem (dicts ?h ! 0) ''train'' = Inr 0"
    by (simp add: dict_getitem_def three_row_store_def)
  have c: "getitem (tables ?h ! 0) ''labels'' = Inr (Flat [0, 2, 1])"
    by (simp add: getitem_def three_row_store_def)
  have ne: "[0, 2, 1 :: int64] \<noteq> []" by simp
  have d: "\<forall>l\<in>set [0, 2, 1 :: int64]. 0 \<le> sint l \<and> sint l < 3" by simp
  have e: "num_rows (filter (\<lambda>kv. fst kv \<noteq> ''labels'') (tables ?h ! 0)) =
             length [0, 2, 1 :: int64]"
    by (simp add: num_rows_def three_row_store_def)
  have ids: "getitem (tables ?h ! 0) ''input_ids'' =
               Inr (Nested [Flat [101, 7], Flat [101, 9], Flat [101, 4]])"
    by (simp add: getitem_def three_row_store_def)
  have no_other: "\<And>f' df'. f' \<noteq> ''train'' \<Longrightarrow> dict_getitem (dicts ?h ! 0) f' \<noteq> Inr df'"
    by (simp add: dict_getitem_def three_row_store_def)
  have rows: "map (\<lambda>l. Flat (eye_row (nat 3) (nat (sint l)))) [0, 2, 1 :: int64] =
                [Flat [1, 0, 0], Flat [0, 0, 1], Flat [0, 1, 0]]"
    by (simp add: eye_row_def upt_conv_Cons)
  have other: "''input_ids'' \<noteq> ''labels''" by simp
  from classification_one_hot [OF a b c ne d e] no_other
  obtain data' h' df' where
    run: "Classification_format_data_by_training_task 3 0 ?h = (Inr data', h')"
    and g1: "dict_getitem (dicts h' ! data') ''train'' = Inr df'"
    and g2: "getitem (tables h' ! df') ''labels'' =
        Inr (Nested (map (\<lambda>l. Flat (eye_row (nat 3) (nat (sint l)))) [0, 2, 1 :: int64]))"
    and g3: "\<forall>name. name \<noteq> ''labels'' \<longrightarrow>
                getitem (tables h' ! df') name = getitem (tables ?h ! 0) name"
    by blast
  from g3 other ids have g4: "getitem (tables h' ! df') ''input_ids'' =
        Inr (Nested [Flat [101, 7], Flat [101, 9], Flat [101, 4]])" by simp
  have "list_all (\<lambda>l. 0 \<le> sint l \<and> sint l < 3) [0, 2, 1 :: int64]" by simp
  with a b c ne e run g1 g2 [unfolded rows] g4 show ?thesis by blast
qed

text \<open>
  C2.  Take a well-formed fold mapping and a fold \<open>f\<close> of it whose labels column is flat
  with more than \<open>num_labels\<close> distinct values.  Then classification formatting raises
  and returns no mapping; the exception is the AssertionError of this fold unless
  another fold that fails its checks is met first.  The loop body on this fold raises
  AssertionError after the cast only: no one-hot table is built and no mapping is
  changed.  Hence \<^verbatim>\<open>fit\<close> of a classification trainer raises as well, with the model
  and the training engine of the trainer as they were.  The witness is the example of
  the spec: \<open>num_labels = 2\<close> and labels \<open>[0, 1, 2]\<close>.
\<close>

theorem classification_too_many_labels:
  assumes wf: "wf_mapping h data"
    and fold: "dict_getitem (dicts h ! data) f = Inr df"
    and flat: "getitem (tables h ! df) ''labels'' = Inr (Flat ls)"
    and many: "n < int (card (set ls))"
  shows "(\<exists>e h'.
            Classification_format_data_by_training_task n data h = (Inl e, h') \<and>
            (e = AssertionError \<or>
             (\<exists>f' df'. f' \<noteq> f \<and> dict_getitem (dicts h ! data) f' = Inr df' \<and>
                        \<not> fold_ok n (tables h ! df'))))
         \<and> (\<forall>d. fold_body n d f df h =
                   (Inl AssertionError, h\<lparr>tables := tables h @ [tables h ! df]\<rparr>))
         \<and> (\<forall>(env :: 'f env) (self :: 'f reward_trainer). cls self = RewardClassificationTrainer \<and> num_labels self = n \<longrightarrow>
               (\<exists>e self' h'. fit env self data h = (Inl e, self', h') \<and>
                   model self' = model self \<and> trainer self' = trainer self))"
proof -
  let ?xs = "dicts h ! data"
  from wf have dist: "distinct (map fst ?xs)" by (simp add: wf_mapping_def)
  from dict_getitem_index [OF fold] obtain i where i: "i < length ?xs" and at: "?xs ! i = (f, df)"
    by blast
  have len: "\<not> int (length (remdups ls)) \<le> n"
    using many by (simp add: length_remdups_card_conv)
  have bad_i: "\<not> fold_ok n (tables h ! df)"
    using flat len by (simp add: fold_ok_def unique_def ndim_def)
  obtain r h' where run: "Classification_format_data_by_training_task n data h = (r, h')"
    by (cases "Classification_format_data_by_training_task n data h")
  have part1: "\<exists>e h'.
            Classification_format_data_by_training_task n data h = (Inl e, h') \<and>
            (e = AssertionError \<or>
             (\<exists>f' df'. f' \<noteq> f \<and> dict_getitem (dicts h ! data) f' = Inr df' \<and>
                        \<not> fold_ok n (tables h ! df')))"
  proof (cases r)
    case (Inr data')
    with run have "Classification_format_data_by_training_task n data h = (Inr data', h')" by simp
    from classification_success [OF wf this] i at have "fold_ok n (tables h ! df)" by auto
    with bad_i show ?thesis by simp
  next
    case (Inl e)
    with run have run': "Classification_format_data_by_training_task n data h = (Inl e, h')"
      by simp
    from classification_failure [OF wf run'] obtain j where j: "j < length ?xs"
      and bad: "\<not> fold_ok n (tables h ! snd (?xs ! j))"
      and err: "\<forall>ls. getitem (tables h ! snd (?xs ! j)) ''labels'' = Inr (Flat ls) \<longrightarrow>
                 \<not> int (length (remdups ls)) \<le> n \<longrightarrow> e = AssertionError" by blast
    show ?thesis
    proof (cases "j = i")
      case True
      with err at flat len have "e = AssertionError" by simp
      with run' show ?thesis by blast
    next
      case False
      with dist i j have "fst (?xs ! j) \<noteq> fst (?xs ! i)" by (intro distinct_keys_neq)
      then have ne: "fst (?xs ! j) \<noteq> f" using at by simp
      have "dict_getitem ?xs (fst (?xs ! j)) = Inr (snd (?xs ! j))"
        using dist j by (rule dict_getitem_nth)
      with run' ne bad show ?thesis by blast
    qed
  qed
  have part2: "\<forall>d. fold_body n d f df h =
                   (Inl AssertionError, h\<lparr>tables := tables h @ [tables h ! df]\<rparr>)"
    using fold_body_assert [OF flat len] by simp
  have part3: "\<forall>(env :: 'f env) (self :: 'f reward_trainer). cls self = RewardClassificationTrainer \<and> num_labels self = n \<longrightarrow>
               (\<exists>e self' h'. fit env self data h = (Inl e, self', h') \<and>
                   model self' = model self \<and> trainer self' = trainer self)"
  proof (intro allI impI)
    fix env :: "'f env" and self :: "'f reward_trainer"
    assume c: "cls self = RewardClassificationTrainer \<and> num_labels self = n"
    from part1 obtain e h' where
      run': "Classification_format_data_by_training_task n data h = (Inl e, h')" by blast
    show "\<exists>e self' h'. fit env self data h = (Inl e, self', h') \<and>
                   model self' = model self \<and> trainer self' = trainer self"
      using c run'
      by (cases "loader_load env (tokenize_loader self)")
        (simp_all add: fit_def format_data_by_training_task_def)
  qed
  from part1 part2 part3 show ?thesis by blast
qed

theorem classification_too_many_labels_witness:
  "wf_mapping (one_fold_store (Flat [0, 1, 2])) 0 \<and>
   dict_getitem (dicts (one_fold_store (Flat [0, 1, 2])) ! 0) ''train'' = Inr 0 \<and>
   getitem (tables (one_fold_store (Flat [0, 1, 2])) ! 0) ''labels'' = Inr (Flat [0, 1, 2]) \<and>
   (2::int) < int (card (set [0, 1, 2 :: int64])) \<and>
   (\<exists>h'. Classification_format_data_by_training_task 2 0 (one_fold_store (Flat [0, 1, 2])) =
            (Inl AssertionError, h'))"
proof -
  let ?h = "one_fold_store (Flat [0, 1, 2])"
  have a: "wf_mapping ?h 0" by (simp add: wf_mapping_def one_fold_store_def)
  have b: "dict_getitem (dicts ?h ! 0) ''train'' = Inr 0"
    by (simp add: dict_getitem_def one_fold_store_def)
  have c: "getitem (tables ?h ! 0) ''labels'' = Inr (Flat [0, 1, 2])"
    by (simp add: getitem_def one_fold_store_def)
  have d: "(2::int) < int (card (set [0, 1, 2 :: int64]))" by simp
  have no_other: "\<And>f' df'. f' \<noteq> ''train'' \<Longrightarrow> dict_getitem (dicts ?h ! 0) f' \<noteq> Inr df'"
    by (simp add: dict_getitem_def one_fold_store_def)
  from classification_too_many_labels [OF a b c d] no_other
  have "\<exists>h'. Classification_format_data_by_training_task 2 0 ?h = (Inl AssertionError, h')"
    by blast
  with a b c d show ?thesis by blast
qed

text \<open>
  C4.  Classification formatting does not change the caller's fold mapping: whatever the
  outcome, every mapping and every table that was in the store before the call is the
  same after it; in particular the caller's mapping still takes every fold name to the
  table it held.  When the call returns, the result is a mapping that was not in the
  store before, with the same fold names in the same order; a fold whose labels are
  multi-dimensional has the caller's table reference as its value, a fold whose labels
  are flat has a table that the call allocated.
\<close>

theorem classification_keeps_callers_mapping:
  assumes wf: "wf_mapping h data"
    and run: "Classification_format_data_by_training_task n data h = (r, h')"
  shows "dicts h' ! data = dicts h ! data
         \<and> (\<forall>d<length (dicts h). dicts h' ! d = dicts h ! d)
         \<and> (\<forall>t<length (tables h). tables h' ! t = tables h ! t)
         \<and> (\<forall>data'. r = Inr data' \<longrightarrow>
               data' \<noteq> data \<and> \<not> data' < length (dicts h) \<and> data' < length (dicts h') \<and>
               map fst (dicts h' ! data') = map fst (dicts h ! data) \<and>
               (\<forall>f df. dict_getitem (dicts h ! data) f = Inr df \<longrightarrow>
                  (\<exists>df' c. dict_getitem (dicts h' ! data') f = Inr df' \<and>
                     getitem (tables h ! df) ''labels'' = Inr c \<and>
                     (if ndim c = 1 then length (tables h) \<le> df' \<and> df' < length (tables h')
                      else df' = df))))"
proof -
  let ?xs = "dicts h ! data"
  from wf have data: "data < length (dicts h)" and dist: "distinct (map fst ?xs)"
    by (simp_all add: wf_mapping_def)
  from classification_frame [OF wf run] obtain new where
    tabs: "tables h' = tables h @ new"
    and len: "length (dicts h') = Suc (length (dicts h))"
    and old: "\<forall>d<length (dicts h). dicts h' ! d = dicts h ! d"
    and keys: "map fst (dicts h' ! length (dicts h)) = map fst ?xs" by blast
  have p1: "dicts h' ! data = ?xs" using old data by simp
  have p3: "\<forall>t<length (tables h). tables h' ! t = tables h ! t"
    using tabs by (simp add: nth_append)
  have p4: "\<forall>data'. r = Inr data' \<longrightarrow>
               data' \<noteq> data \<and> \<not> data' < length (dicts h) \<and> data' < length (dicts h') \<and>
               map fst (dicts h' ! data') = map fst (dicts h ! data) \<and>
               (\<forall>f df. dict_getitem (dicts h ! data) f = Inr df \<longrightarrow>
                  (\<exists>df' c. dict_getitem (dicts h' ! data') f = Inr df' \<and>
                     getitem (tables h ! df) ''labels'' = Inr c \<and>
                     (if ndim c = 1 then length (tables h) \<le> df' \<and> df' < length (tables h')
                      else df' = df)))"
  proof (intro allI impI)
    fix data' assume r: "r = Inr data'"
    with run have run': "Classification_format_data_by_training_task n data h = (Inr data', h')"
      by simp
    let ?ys = "dicts h' ! data'"
    from classification_success [OF wf run']
    have d': "data' = length (dicts h)"
      and all: "\<forall>j<length ?xs. formatted_entry n h h' (?xs ! j) (?ys ! j)" by blast+
    have keys': "map fst ?ys = map fst ?xs" using keys d' by simp
    then have leny: "length ?ys = length ?xs" by (rule map_eq_imp_length_eq)
    have dist': "distinct (map fst ?ys)" using dist keys' by simp
    have each: "\<forall>f df. dict_getitem ?xs f = Inr df \<longrightarrow>
                  (\<exists>df' c. dict_getitem ?ys f = Inr df' \<and>
                     getitem (tables h ! df) ''labels'' = Inr c \<and>
                     (if ndim c = 1 then length (tables h) \<le> df' \<and> df' < length (tables h')
                      else df' = df))"
    proof (intro allI impI)
      fix f df assume "dict_getitem ?xs f = Inr df"
      from classification_entry [OF wf run' this] obtain df' where
        get: "dict_getitem ?ys f = Inr df'" and fe: "formatted_entry n h h' (f, df) (f, df')"
        by blast
      from formatted_entry_refs [OF fe] get
      show "\<exists>df' c. dict_getitem ?ys f = Inr df' \<and>
                     getitem (tables h ! df) ''labels'' = Inr c \<and>
                     (if ndim c = 1 then length (tables h) \<le> df' \<and> df' < length (tables h')
                      else df' = df)" by blast
    qed
    show "data' \<noteq> data \<and> \<not> data' < length (dicts h) \<and> data' < length (dicts h') \<and>
               map fst (dicts h' ! data') = map fst (dicts h ! data) \<and>
               (\<forall>f df. dict_getitem (dicts h ! data) f = Inr df \<longrightarrow>
                  (\<exists>df' c. dict_getitem (dicts h' ! data') f = Inr df' \<and>
                     getitem (tables h ! df) ''labels'' = Inr c \<and>
                     (if ndim c = 1 then length (tables h) \<le> df' \<and> df' < length (tables h')
                      else df' = df)))"
      using d' data len keys' each by simp
  qed
  from p1 old p3 p4 show ?thesis by blast
qed

lemma two_fold_run:
  "Classification_format_data_by_training_task 2 0 two_fold_store =
     (Inr 1,
      \<lparr>tables =
         [[(''input_ids'', Nested [Flat [101, 7], Flat [101, 9]]), (''labels'', Flat [0, 1])],
          [(''input_ids'', Nested [Flat [101, 5]]), (''labels'', Nested [Flat [1, 0]])],
          [(''input_ids'', Nested [Flat [101, 7], Flat [101, 9]]), (''labels'', Flat [0, 1])],
          [(''input_ids'', Nested [Flat [101, 7], Flat [101, 9]])],
          [(''input_ids'', Nested [Flat [101, 7], Flat [101, 9]]),
           (''labels'', Nested [Flat [1, 0], Flat [0, 1]])]],
       dicts = [[(''train'', 0), (''validation'', 1)], [(''train'', 4), (''validation'', 1)]]\<rparr>)"
  by (simp add: eval_defs two_fold_store_def)

theorem classification_keeps_callers_mapping_witness:
  "wf_mapping two_fold_store 0 \<and>
   (\<exists>h'. Classification_format_data_by_training_task 2 0 two_fold_store = (Inr 1, h') \<and>
      dicts h' ! 0 = [(''train'', 0), (''validation'', 1)] \<and>
      dicts h' ! 1 = [(''train'', 4), (''validation'', 1)] \<and>
      tables h' ! 0 = tables two_fold_store ! 0 \<and> tables h' ! 1 = tables two_fold_store ! 1)"
proof -
  define h' where "h' = snd (Classification_format_data_by_training_task 2 0 two_fold_store)"
  have a: "wf_mapping two_fold_store 0" by (simp add: wf_mapping_def two_fold_store_def)
  have run: "Classification_format_data_by_training_task 2 0 two_fold_store = (Inr 1, h')"
    by (simp add: h'_def two_fold_run)
  from classification_keeps_callers_mapping [OF a run]
  have d0: "dicts h' ! 0 = dicts two_fold_store ! 0"
    and tabs: "\<forall>t<length (tables two_fold_store). tables h' ! t = tables two_fold_store ! t"
    by blast+
  have d0': "dicts h' ! 0 = [(''train'', 0), (''validation'', 1)]"
    using d0 by (simp add: two_fold_store_def)
  have d1: "dicts h' ! 1 = [(''train'', 4), (''validation'', 1)]"
    by (simp add: h'_def two_fold_run)
  have "length (tables two_fold_store) = 2" by (simp add: two_fold_store_def)
  with tabs have t0: "tables h' ! 0 = tables two_fold_store ! 0"
    and t1: "tables h' ! 1 = tables two_fold_store ! 1" by simp_all
  from a run d0' d1 t0 t1 show ?thesis by blast
qed

text \<open>
  C5.  For a fold whose labels column is multi-dimensional already (\<^verbatim>\<open>np.array\<close> builds
  an array of it whose \<open>ndim\<close> is not 1), the loop body leaves the whole store as it is
  (no cast, no expansion, no new table), and in the mapping that classification
  formatting returns the fold has the same table reference, whose table is unchanged.
\<close>

theorem classification_multi_dimensional_identity:
  assumes wf: "wf_mapping h data"
    and fold: "dict_getitem (dicts h ! data) f = Inr df"
    and labels: "getitem (tables h ! df) ''labels'' = Inr c"
    and array: "np_array c = Inr a"
    and multi: "ndim a \<noteq> 1"
  shows "(\<forall>d. fold_body n d f df h = (Inr (), h))
         \<and> (\<forall>data' h'.
               Classification_format_data_by_training_task n data h = (Inr data', h') \<longrightarrow>
               dict_getitem (dicts h' ! data') f = Inr df \<and> tables h' ! df = tables h ! df)"
proof -
  from array have sh: "shape c \<noteq> None" and ac: "a = c"
    by (auto simp: np_array_def split: option.splits)
  from multi ac have nd: "ndim c \<noteq> 1" by simp
  have body: "\<forall>d. fold_body n d f df h = (Inr (), h)"
    using fold_body_nested [OF labels sh nd] by simp
  have whole: "\<forall>data' h'.
               Classification_format_data_by_training_task n data h = (Inr data', h') \<longrightarrow>
               dict_getitem (dicts h' ! data') f = Inr df \<and> tables h' ! df = tables h ! df"
  proof (intro allI impI)
    fix data' h'
    assume run: "Classification_format_data_by_training_task n data h = (Inr data', h')"
    from dict_getitem_index [OF fold] obtain i where i: "i < length (dicts h ! data)"
      and at: "dicts h ! data ! i = (f, df)" by blast
    from wf have "\<forall>j<length (dicts h ! data). snd (dicts h ! data ! j) < length (tables h)"
      by (simp add: wf_mapping_def list_all_length)
    with i have "snd (dicts h ! data ! i) < length (tables h)" by blast
    with at have df: "df < length (tables h)" by simp
    from classification_entry [OF wf run fold] obtain df' where
      get: "dict_getitem (dicts h' ! data') f = Inr df'"
      and fe: "formatted_entry n h h' (f, df) (f, df')" by blast
    from formatted_entry_refs [OF fe] labels nd have same: "df' = df" by auto
    from classification_frame [OF wf run] obtain new where "tables h' = tables h @ new"
      by blast
    with df have "tables h' ! df = tables h ! df" by (simp add: nth_append)
    with get same
    show "dict_getitem (dicts h' ! data') f = Inr df \<and> tables h' ! df = tables h ! df"
      by simp
  qed
  from body whole show ?thesis by blast
qed

theorem classification_multi_dimensional_identity_witness:
  "wf_mapping two_fold_store 0 \<and>
   dict_getitem (dicts two_fold_store ! 0) ''validation'' = Inr 1 \<and>
   getitem (tables two_fold_store ! 1) ''labels'' = Inr (Nested [Flat [1, 0]]) \<and>
   np_array (Nested [Flat [1, 0]]) = Inr (Nested [Flat [1, 0]]) \<and>
   ndim (Nested [Flat [1, 0]]) \<noteq> 1 \<and>
   fold_body 2 1 ''validation'' 1 two_fold_store = (Inr (), two_fold_store) \<and>
   (\<exists>data' h'.
      Classification_format_data_by_training_task 2 0 two_fold_store = (Inr data', h') \<and>
      dict_getitem (dicts h' ! data') ''validation'' = Inr 1 \<and>
      tables h' ! 1 = tables two_fold_store ! 1)"
proof -
  define h' where "h' = snd (Classification_format_data_by_training_task 2 0 two_fold_store)"
  have a: "wf_mapping two_fold_store 0" by (simp add: wf_mapping_def two_fold_store_def)
  have b: "dict_getitem (dicts two_fold_store ! 0) ''validation'' = Inr 1"
    by (simp add: dict_getitem_def two_fold_store_def)
  have c: "getitem (tables two_fold_store ! 1) ''labels'' = Inr (Nested [Flat [1, 0]])"
    by (simp add: getitem_def two_fold_store_def)
  have ar: "np_array (Nested [Flat [1, 0]]) = Inr (Nested [Flat [1, 0]])"
    by (simp add: np_array_def)
  have d: "ndim (Nested [Flat [1, 0]]) \<noteq> 1" by (simp add: ndim_def)
  have run: "Classification_format_data_by_training_task 2 0 two_fold_store = (Inr 1, h')"
    by (simp add: h'_def two_fold_run)
  note identity = classification_multi_dimensional_identity [OF a b c ar d, of 2]
  from identity have body: "fold_body 2 1 ''validation'' 1 two_fold_store = (Inr (), two_fold_store)"
    by blast
  from identity run have "dict_getitem (dicts h' ! 1) ''validation'' = Inr 1 \<and>
      tables h' ! 1 = tables two_fold_store ! 1" by blast
  with a b c ar d body run show ?thesis by blast
qed

text \<open>
  C6.  The assertion on the number of distinct labels does not make the indexing safe:
  whenever a flat labels column has at most \<open>num_labels\<close> distinct values, so that the
  assertion passes, and holds a value \<open>l \<ge> num_labels\<close>, indexing the identity matrix
  raises IndexError and so does \<^verbatim>\<open>_format_one_hot_labels\<close>.  The witness is labels
  \<open>[0, 2]\<close> with \<open>num_labels = 2\<close>.
\<close>

theorem assertion_does_not_guard_indexing:
  assumes flat: "getitem (tables h ! df) ''labels'' = Inr (Flat ls)"
    and few: "int (length (unique (Flat ls))) \<le> n"
    and mem: "l \<in> set ls" and big: "n \<le> sint l"
  shows "eye_index n (Flat ls) = Inl IndexError
         \<and> format_one_hot_labels n df h = (Inl IndexError, h)"
proof -
  have n0: "\<not> n < 0" using few by linarith
  have "\<not> in_bounds n l" using big n0 by (simp add: in_bounds_def wrap_index_def)
  with mem have nb: "\<not> list_all (in_bounds n) ls" by (auto simp: list_all_iff)
  have e: "eye_index n (Flat ls) = Inl IndexError" using n0 nb by (simp add: eye_index_def)
  show ?thesis using flat few e by (simp add: format_one_hot_labels_def np_array_def)
qed

theorem assertion_does_not_guard_indexing_witness:
  "getitem (tables (one_fold_store (Flat [0, 2])) ! 0) ''labels'' = Inr (Flat [0, 2]) \<and>
   int (length (unique (Flat [0, 2]))) \<le> 2 \<and>
   (2 :: int64) \<in> set [0, 2] \<and> (2 :: int) \<le> sint (2 :: int64) \<and>
   eye_index 2 (Flat [0, 2]) = Inl IndexError \<and>
   format_one_hot_labels 2 0 (one_fold_store (Flat [0, 2])) =
     (Inl IndexError, one_fold_store (Flat [0, 2]))"
proof -
  have a: "getitem (tables (one_fold_store (Flat [0, 2])) ! 0) ''labels'' = Inr (Flat [0, 2])"
    by (simp add: getitem_def one_fold_store_def)
  have b: "int (length (unique (Flat [0, 2]))) \<le> 2" by (simp add: unique_def)
  have c: "(2 :: int64) \<in> set [0, 2]" by simp
  have d: "(2 :: int) \<le> sint (2 :: int64)" by simp
  from assertion_does_not_guard_indexing [OF a b c d] a b c d show ?thesis by blast
qed

section \<open>The trainer object: the claims\<close>

text \<open>
  C3, as stated, does not hold: the base class cannot be instantiated at all, so no
  \<^verbatim>\<open>fit\<close> call on a base-type object exists that could reach the hook.  At the example
  arguments the instantiation raises TypeError, and instantiating the base class and
  calling \<^verbatim>\<open>fit\<close> does not end in NotImplementedError.
\<close>

theorem base_class_used_directly_counterexample:
  "instantiate BaseRewardTrainer example_args = Inl TypeError \<and>
   fst (instantiate_and_fit example_env BaseRewardTrainer example_args 0 two_fold_store)
     \<noteq> Inl NotImplementedError"
  by (simp add: instantiate_def instantiate_and_fit_def)

text \<open>
  C3, amended.  Using the base trainer type directly fails instead of proceeding
  silently: for all constructor arguments, instantiating \<^verbatim>\<open>BaseRewardTrainer\<close> raises
  TypeError (the class is abstract), so that instantiate-then-fit raises TypeError with
  no object built and the store untouched; the abstract formatting hook itself raises
  NotImplementedError whenever it is invoked.
\<close>

theorem base_class_used_directly:
  "instantiate BaseRewardTrainer args = Inl TypeError
   \<and> instantiate_and_fit env BaseRewardTrainer args data h = (Inl TypeError, None, h)
   \<and> Base_format_data_by_training_task data h = (Inl NotImplementedError, h)"
  by (simp add: instantiate_def instantiate_and_fit_def Base_format_data_by_training_task_def)

text \<open>
  C7.  An access to \<^verbatim>\<open>training_config\<close> leaves the trainer object exactly as it was,
  so a second access returns the same configuration as the first.  The configuration
  does not depend on the tokenizer, model and engine attributes that the methods
  assign; two trainers built from the same constructor arguments (of whichever class)
  get the same configuration, and every field of the configuration of a freshly built
  trainer is the corresponding constructor argument (the logging directory is the
  output directory followed by \<open>/logs\<close>, \<open>logging_first_step\<close> is \<open>False\<close>).  The method
  that reads the property, \<^verbatim>\<open>instantiate_reward_trainer\<close>, therefore changes no
  attribute of the trainer but \<^verbatim>\<open>trainer\<close>.
\<close>

theorem training_config_pure:
  "snd (get_training_config self) = self
   \<and> fst (get_training_config (snd (get_training_config self))) = fst (get_training_config self)
   \<and> fst (get_training_config (self\<lparr>tokenizer := tk, model := m, trainer := tr\<rparr>)) =
       fst (get_training_config self)
   \<and> fst (get_training_config (init c1 args)) = fst (get_training_config (init c2 args))
   \<and> fst (get_training_config (init c args)) =
       \<lparr>arg_output_dir = output_dir args,
        arg_learning_rate = learning_rate args,
        arg_num_train_epochs = num_train_epochs args,
        arg_logging_dir = output_dir args @ ''/logs'',
        arg_logging_strategy = logging_strategy args,
        arg_logging_steps = logging_steps args,
        arg_evaluation_strategy = eval_strategy args,
        arg_eval_steps = eval_steps args,
        arg_save_strategy = save_strategy args,
        arg_save_steps = save_steps args,
        arg_bf16 = bf16 args,
        arg_optim = optim args,
        arg_logging_first_step = False,
        arg_seed = train_seed args,
        arg_per_device_train_batch_size = per_device_batch_size args,
        arg_per_device_eval_batch_size = per_device_batch_size args,
        arg_gradient_accumulation_steps = gradient_accumulation_steps args\<rparr>
   \<and> (case instantiate_reward_trainer self data h of
         Inl e \<Rightarrow> True
       | Inr self' \<Rightarrow> self' = self\<lparr>trainer := trainer self'\<rparr>)"
  by (simp add: get_training_config_def training_config_def init_def
      instantiate_reward_trainer_def split: option.splits sum.splits)

text \<open>
  C8.  In the configuration of every trainer the per-device train batch size and the
  per-device eval batch size are both the \<^verbatim>\<open>per_device_batch_size\<close> the trainer was
  built with.
\<close>

theorem batch_size_train_and_eval:
  "arg_per_device_train_batch_size (training_config (init c args)) = per_device_batch_size args
   \<and> arg_per_device_eval_batch_size (training_config (init c args)) = per_device_batch_size args
   \<and> arg_per_device_train_batch_size (training_config self) = per_device_batch_size self
   \<and> arg_per_device_eval_batch_size (training_config self) = per_device_batch_size self"
  by (simp add: training_config_def init_def)

text \<open>
  C9.  For a trainer that holds a model and a tokenizer: when the fold mapping has a
  \<open>train\<close> fold, \<^verbatim>\<open>instantiate_reward_trainer\<close> sets the engine, bound to the model, the
  training configuration, the tokenizer, the \<open>train\<close> table as train dataset, and as
  eval dataset the \<open>validation\<close> table when the mapping has one and \<open>None\<close> when it has
  not; when the mapping has no \<open>train\<close> fold the call raises KeyError.
\<close>

theorem instantiate_reward_trainer_datasets:
  assumes m: "model self = Some m" and tk: "tokenizer self = Some tk"
  shows "(\<forall>t. dict_getitem (dicts h ! data) ''train'' = Inr t \<longrightarrow>
            instantiate_reward_trainer self data h =
              Inr (self\<lparr>trainer := Some \<lparr>engine_model = m, engine_args = training_config self,
                     engine_tokenizer = tk, train_dataset = t,
                     eval_dataset = dict_get (dicts h ! data) ''validation''\<rparr>\<rparr>))
         \<and> (''train'' \<notin> set (map fst (dicts h ! data)) \<longrightarrow>
               instantiate_reward_trainer self data h = Inl KeyError)
         \<and> (''train'' \<in> set (map fst (dicts h ! data)) \<longleftrightarrow>
               (\<exists>t. dict_getitem (dicts h ! data) ''train'' = Inr t))
         \<and> (''validation'' \<in> set (map fst (dicts h ! data)) \<longleftrightarrow>
               (\<exists>v. dict_get (dicts h ! data) ''validation'' = Some v))"
proof -
  let ?d = "dicts h ! data"
  have p1: "\<forall>t. dict_getitem ?d ''train'' = Inr t \<longrightarrow>
            instantiate_reward_trainer self data h =
              Inr (self\<lparr>trainer := Some \<lparr>engine_model = m, engine_args = training_config self,
                     engine_tokenizer = tk, train_dataset = t,
                     eval_dataset = dict_get ?d ''validation''\<rparr>\<rparr>)"
    using m tk by (simp add: instantiate_reward_trainer_def get_training_config_def)
  have p2: "''train'' \<notin> set (map fst ?d) \<longrightarrow>
               instantiate_reward_trainer self data h = Inl KeyError"
  proof
    assume "''train'' \<notin> set (map fst ?d)"
    then have "map_of ?d ''train'' = None" by (simp add: map_of_eq_None_iff)
    then have "dict_getitem ?d ''train'' = Inl KeyError" by (simp add: dict_getitem_def)
    with m tk show "instantiate_reward_trainer self data h = Inl KeyError"
      by (simp add: instantiate_reward_trainer_def get_training_config_def)
  qed
  have keys: "\<And>k. k \<in> set (map fst ?d) \<longleftrightarrow> (\<exists>v. map_of ?d k = Some v)"
    using map_of_eq_None_iff [of ?d] by (metis not_Some_eq set_map)
  have p3: "''train'' \<in> set (map fst ?d) \<longleftrightarrow> (\<exists>t. dict_getitem ?d ''train'' = Inr t)"
    unfolding keys by (auto simp: dict_getitem_def split: option.splits)
  have p4: "''validation'' \<in> set (map fst ?d) \<longleftrightarrow> (\<exists>v. dict_get ?d ''validation'' = Some v)"
    unfolding keys by (simp add: dict_get_def)
  from p1 p2 p3 p4 show ?thesis by blast
qed

theorem instantiate_reward_trainer_datasets_witness:
  "model example_trainer = Some 2 \<and> tokenizer example_trainer = Some 1 \<and>
   dict_getitem (dicts two_fold_store ! 0) ''train'' = Inr 0 \<and>
   instantiate_reward_trainer example_trainer 0 two_fold_store =
     Inr (example_trainer\<lparr>trainer := Some \<lparr>engine_model = 2,
            engine_args = training_config example_trainer,
            engine_tokenizer = 1, train_dataset = 0, eval_dataset = Some 1\<rparr>\<rparr>) \<and>
   ''train'' \<notin> set (map fst (dicts (one_fold_store (Flat [])\<lparr>dicts := [[(''test'', 0)]]\<rparr>) ! 0)) \<and>
   instantiate_reward_trainer example_trainer 0 (one_fold_store (Flat [])\<lparr>dicts := [[(''test'', 0)]]\<rparr>)
     = Inl KeyError \<and>
   instantiate_reward_trainer example_trainer 0 (one_fold_store (Flat [])) =
     Inr (example_trainer\<lparr>trainer := Some \<lparr>engine_model = 2,
            engine_args = training_config example_trainer,
            engine_tokenizer = 1, train_dataset = 0, eval_dataset = None\<rparr>\<rparr>)"
proof -
  have a: "model example_trainer = Some 2" and b: "tokenizer example_trainer = Some 1"
    by (simp_all add: example_trainer_def)
  note bind = instantiate_reward_trainer_datasets [OF a b]
  have c: "dict_getitem (dicts two_fold_store ! 0) ''train'' = Inr 0"
    by (simp add: dict_getitem_def two_fold_store_def)
  have v: "dict_get (dicts two_fold_store ! 0) ''validation'' = Some 1"
    by (simp add: dict_get_def two_fold_store_def)
  from bind [of two_fold_store 0] c v
  have r1: "instantiate_reward_trainer example_trainer 0 two_fold_store =
     Inr (example_trainer\<lparr>trainer := Some \<lparr>engine_model = 2,
            engine_args = training_config example_trainer,
            engine_tokenizer = 1, train_dataset = 0, eval_dataset = Some 1\<rparr>\<rparr>)" by simp
  let ?h = "one_fold_store (Flat [])\<lparr>dicts := [[(''test'', 0)]]\<rparr>"
  have d: "''train'' \<notin> set (map fst (dicts ?h ! 0))" by simp
  from bind [of ?h 0] d
  have r2: "instantiate_reward_trainer example_trainer 0 ?h = Inl KeyError" by blast
  have e: "dict_getitem (dicts (one_fold_store (Flat [])) ! 0) ''train'' = Inr 0"
    by (simp add: dict_getitem_def one_fold_store_def)
  have nv: "dict_get (dicts (one_fold_store (Flat [])) ! 0) ''validation'' = None"
    by (simp add: dict_get_def one_fold_store_def)
  from bind [of "one_fold_store (Flat [])" 0] e nv
  have r3: "instantiate_reward_trainer example_trainer 0 (one_fold_store (Flat [])) =
     Inr (example_trainer\<lparr>trainer := Some \<lparr>engine_model = 2,
            engine_args = training_config example_trainer,
            engine_tokenizer = 1, train_dataset = 0, eval_dataset = None\<rparr>\<rparr>)" by simp
  from a b c r1 d r2 r3 show ?thesis by blast
qed

text \<open>
  C10.  For a trainer that holds a model, \<^verbatim>\<open>save(path)\<close> writes the model to the
  configured output directory whenever \<open>path\<close> is falsy, and to \<open>path\<close> whenever it is
  truthy; \<open>None\<close>, the empty string, \<open>0\<close>, \<open>False\<close> and the empty list are all falsy, so
  the fallback is not a test for \<open>None\<close>.
\<close>

theorem save_falls_back_on_falsy_path:
  assumes m: "model self = Some m"
  shows "(\<not> truthy path \<longrightarrow>
            save self path saved = (Inr (), saved @ [(m, PStr (output_dir self))]))
         \<and> (truthy path \<longrightarrow> save self path saved = (Inr (), saved @ [(m, path)]))
         \<and> \<not> truthy PNone \<and> \<not> truthy (PStr []) \<and> \<not> truthy (PInt 0)
         \<and> \<not> truthy (PBool False) \<and> \<not> truthy (PList [])"
  using m by (simp add: save_def py_or_def)

theorem save_falls_back_on_falsy_path_witness:
  "model example_trainer = Some 2 \<and>
   save example_trainer (PStr []) [] = (Inr (), [(2, PStr ''out'')]) \<and>
   save example_trainer PNone [] = (Inr (), [(2, PStr ''out'')]) \<and>
   save example_trainer (PInt 0) [] = (Inr (), [(2, PStr ''out'')]) \<and>
   save example_trainer (PStr ''ckpt'') [] = (Inr (), [(2, PStr ''ckpt'')])"
proof -
  have a: "model example_trainer = Some 2" by (simp add: example_trainer_def)
  have o: "output_dir example_trainer = ''out''"
    by (simp add: example_trainer_def init_def example_args_def)
  note fallback = save_falls_back_on_falsy_path [OF a]
  from fallback [of "PStr []" "[]"] o
  have r1: "save example_trainer (PStr []) [] = (Inr (), [(2, PStr ''out'')])" by simp
  from fallback [of PNone "[]"] o
  have r2: "save example_trainer PNone [] = (Inr (), [(2, PStr ''out'')])" by simp
  from fallback [of "PInt 0" "[]"] o
  have r3: "save example_trainer (PInt 0) [] = (Inr (), [(2, PStr ''out'')])" by simp
  from fallback [of "PStr ''ckpt''" "[]"]
  have r4: "save example_trainer (PStr ''ckpt'') [] = (Inr (), [(2, PStr ''ckpt'')])" by simp
  from a r1 r2 r3 r4 show ?thesis by blast
qed

end
